theory Spec2Isabelle
  imports Complex_Main
begin

section \<open>Strings\<close>

text \<open>
  A Python \<open>str\<close> is modelled as an Isabelle \<open>string\<close> whose characters are the code
  points below 256. The functions below follow \<open>str.upper\<close>, \<open>str.lower\<close>,
  \<open>str.strip\<close> and the format specification \<open>{x:<n}\<close> on these code points. The two
  code points whose upper-case form lies beyond 255 (181 and 255) are kept as they are.
\<close>

definition upper_char :: "char \<Rightarrow> string" where
  "upper_char c =
     (let n = (of_char c :: nat)
      in if 97 \<le> n \<and> n \<le> 122 then [char_of (n - 32)]
         else if n = 223 then ''SS''
         else if 224 \<le> n \<and> n \<le> 254 \<and> n \<noteq> 247 then [char_of (n - 32)]
         else [c])"

definition upper :: "string \<Rightarrow> string" where
  "upper s = concat (map upper_char s)"

definition lower_char :: "char \<Rightarrow> char" where
  "lower_char c =
     (let n = (of_char c :: nat)
      in if 65 \<le> n \<and> n \<le> 90 then char_of (n + 32)
         else if 192 \<le> n \<and> n \<le> 222 \<and> n \<noteq> 215 then char_of (n + 32)
         else c)"

definition lower :: "string \<Rightarrow> string" where
  "lower s = map lower_char s"

definition isspace :: "char \<Rightarrow> bool" where
  "isspace c =
     (let n = (of_char c :: nat)
      in (9 \<le> n \<and> n \<le> 13) \<or> (28 \<le> n \<and> n \<le> 32) \<or> n = 133 \<or> n = 160)"

definition strip :: "string \<Rightarrow> string" where
  "strip s = rev (dropWhile isspace (rev (dropWhile isspace s)))"

definition ljust :: "nat \<Rightarrow> string \<Rightarrow> string" where
  "ljust n s = s @ replicate (n - length s) (CHR '' '')"

fun str_nat :: "nat \<Rightarrow> string" where
  "str_nat n =
     (if n < 10 then [char_of (48 + n)]
      else str_nat (n div 10) @ [char_of (48 + n mod 10)])"

declare str_nat.simps [simp del]

section \<open>Errors\<close>

text \<open>
  \<open>InvalidLevel\<close>, \<open>NotInList\<close>, \<open>InvalidPath\<close>, \<open>NotADirectory\<close> and \<open>InvalidFormat\<close>
  are the \<open>ValueError\<close>s of the source, told apart by where they are raised
  (\<open>NotInList\<close> is the one of \<open>list.index\<close>); \<open>ValueError\<close> is any other one.
  \<open>FileExistsError\<close> is told apart from the other \<open>OSError\<close>s. \<open>Raised\<close> is an exception that reaches
  the caller; \<open>Exited\<close> is an exception that the source catches, prints and answers with
  \<open>sys.exit(1)\<close>.
\<close>

datatype exn =
    InvalidLevel | NotInList | InvalidPath | NotADirectory | InvalidFormat | ValueError
  | KeyError | OSError | FileExistsError | AttributeError | TypeError

datatype error = Raised exn | Exited exn

section \<open>Severity levels\<close>

definition LOGGINGLEVELS :: "string list" where
  "LOGGINGLEVELS = [''DEBUG'', ''INFO'', ''WARNING'', ''ERROR'', ''CRITICAL'']"

fun list_index :: "'a list \<Rightarrow> 'a \<Rightarrow> nat option" where
  "list_index [] y = None"
| "list_index (x # xs) y =
     (if x = y then Some 0 else map_option Suc (list_index xs y))"

definition getPriority :: "string \<Rightarrow> error + nat" where
  "getPriority level =
     (if upper level \<notin> set LOGGINGLEVELS then Inl (Raised InvalidLevel)
      else case list_index LOGGINGLEVELS level of
             None \<Rightarrow> Inl (Raised NotInList)
           | Some i \<Rightarrow> Inr i)"

section \<open>Messages and JSON values\<close>

text \<open>
  What the \<open>json\<close> module sees of a Python value: a string, a list, a dictionary with
  string keys, a value written as a literal (a number, \<open>true\<close>, \<open>false\<close>, \<open>null\<close>;
  \<open>JLiteral\<close> holds the text that the encoder writes for it), or an object that the
  encoder cannot serialise, on which it raises \<open>TypeError\<close>.
\<close>

datatype json =
    JString string
  | JLiteral string
  | JArray "json list"
  | JObject "(string \<times> json) list"
  | JOpaque

text \<open>
  A message is any Python object. The logger looks at it in two ways, and the model keeps
  both: the text \<open>str(message)\<close>, and the value that the \<open>json\<close> encoder sees. For a
  \<open>str\<close> the two are the string itself.
\<close>

record pymsg =
  msg_text :: string
  msg_json :: json

definition of_str :: "string \<Rightarrow> pymsg" where
  "of_str s = \<lparr>msg_text = s, msg_json = JString s\<rparr>"

section \<open>Console rendering\<close>

definition esc :: "string \<Rightarrow> string" where
  "esc code = CHR 0x1B # code"

definition LOGS :: "(string \<times> string) list" where
  "LOGS =
     [(''STYLEALT'', esc ''[95m''), (''DEBUG'', esc ''[94m''), (''INFO'', esc ''[96m''),
      (''STYLE'', esc ''[92m''), (''WARNING'', esc ''[93m''), (''ERROR'', esc ''[91m''),
      (''RESET'', esc ''[0m''), (''BOLD'', esc ''[1m''), (''WHITE'', esc ''[97m''),
      (''UNDERLINE'', esc ''[4m''), (''CRITICAL'', esc ''[91m'')]"

text \<open>\<open>LOGS[k]\<close>: a missing key raises \<open>KeyError\<close>.\<close>

definition LOGS_get :: "string \<Rightarrow> error + string" where
  "LOGS_get k = (case map_of LOGS k of None \<Rightarrow> Inl (Raised KeyError) | Some v \<Rightarrow> Inr v)"

text \<open>\<open>LOGS[k]\<close> for the literal keys of the source, all of which are in the table.\<close>

definition col :: "string \<Rightarrow> string" where
  "col k = (case map_of LOGS k of None \<Rightarrow> [] | Some v \<Rightarrow> v)"

text \<open>
  The caller's frame (\<open>inspect.getframeinfo\<close> two frames up) is an input of the model.
\<close>

record frameinfo =
  fi_filename :: string
  fi_function :: string
  fi_lineno :: nat

definition colouredLine :: "string \<Rightarrow> string \<Rightarrow> string \<Rightarrow> frameinfo \<Rightarrow> string \<Rightarrow> string" where
  "colouredLine currentTime logType lt information message =
     (let sepColor = col ''STYLEALT'';
          callerInfoColor = esc ''[37m'';
          underline = (if upper logType = ''CRITICAL'' then col ''UNDERLINE'' else [])
      in col ''STYLE'' @ currentTime
         @ col ''BOLD'' @ sepColor @ ''|'' @ col ''RESET'' @ '' ''
         @ col ''BOLD'' @ underline @ lt @ ljust 8 logType @ col ''RESET'' @ '' ''
         @ sepColor @ col ''BOLD'' @ ''|'' @ col ''RESET''
         @ callerInfoColor @ '' '' @ ljust 65 (fi_filename information)
         @ col ''STYLEALT'' @ col ''BOLD'' @ '' -> '' @ col ''RESET''
         @ col ''INFO'' @ ljust 20 (fi_function information)
         @ col ''STYLEALT'' @ col ''BOLD'' @ '' -> '' @ col ''RESET''
         @ col ''WHITE'' @ col ''BOLD'' @ ljust 5 (str_nat (fi_lineno information))
         @ col ''STYLEALT'' @ '' -'' @ col ''RESET''
         @ lt @ col ''BOLD'' @ '' '' @ underline @ message @ col ''RESET'')"

definition plainLine :: "string \<Rightarrow> string \<Rightarrow> frameinfo \<Rightarrow> string \<Rightarrow> string" where
  "plainLine currentTime logType information message =
     currentTime @ ''| '' @ ljust 8 logType @ ''| ''
     @ ljust 65 (fi_filename information) @ ljust 20 (fi_function information)
     @ '' -> '' @ ljust 5 (str_nat (fi_lineno information)) @ '' - '' @ message"

section \<open>The logger object\<close>

text \<open>
  The dictionary \<open>currentLog\<close> built by \<open>__log\<close>: its six keys, in insertion order.
\<close>

record logrec =
  Timestamp :: string
  Level :: string
  Path :: string
  Module :: string
  Line :: string
  Message :: pymsg

text \<open>
  The attributes of a \<open>SoleLog\<close> instance. An attribute that \<open>__init__\<close> sets only on
  some paths is an option, \<open>None\<close> while it does not exist; reading it then raises
  \<open>AttributeError\<close>. The queue holds records and the sentinel (\<open>None\<close>). The field
  \<open>writerRunning\<close> is the state of the thread \<open>__writer\<close>. Python's \<open>float\<close> is a
  rational number here (the product with \<open>1024 * 1024\<close> is exact on floats).
\<close>

record logger =
  queue :: "logrec option list"
  sessions :: nat
  logDir :: "string option"
  logSaveFormat :: string
  logDirName :: string
  makeNewLogDir :: bool
  logPriority :: string
  formatJsonLogs :: bool
  colouredLog :: bool
  showTime :: bool
  flushInterval :: rat
  maxLogSize :: rat
  showLogInConsole :: bool
  sessionUuid :: "string option"
  sessionLogs :: "(string \<times> logrec list) list option"
  rootDir :: "string option"
  sessionStartTime :: "string option"
  logFile :: "string option"
  writerRunning :: bool

section \<open>Emitting a record\<close>

text \<open>
  The local variable \<open>currentTime\<close>: the clock reading followed by a space when the
  time is shown (the argument \<open>showTime\<close> if it is not \<open>None\<close>, else the attribute), the
  empty string otherwise.
\<close>

definition currentTimeOf :: "logger \<Rightarrow> bool option \<Rightarrow> string \<Rightarrow> string" where
  "currentTimeOf self showTimeArg now =
     (case showTimeArg of
        Some b \<Rightarrow> (if b then now @ '' '' else [])
      | None \<Rightarrow> (if showTime self then now @ '' '' else []))"

text \<open>The dictionary \<open>currentLog\<close>.\<close>

definition currentLogOf :: "string \<Rightarrow> string \<Rightarrow> frameinfo \<Rightarrow> pymsg \<Rightarrow> logrec" where
  "currentLogOf currentTime logType information message =
     \<lparr>Timestamp = currentTime,
      Level = ljust 8 logType,
      Path = ljust 65 (fi_filename information),
      Module = ljust 10 (fi_function information),
      Line = ljust 5 (str_nat (fi_lineno information)),
      Message = message\<rparr>"

text \<open>The console string \<open>generatedLog\<close>, coloured or plain.\<close>

definition generatedLogOf ::
  "logger \<Rightarrow> string \<Rightarrow> string \<Rightarrow> frameinfo \<Rightarrow> pymsg \<Rightarrow> error + string" where
  "generatedLogOf self currentTime logType information message =
     (if colouredLog self
      then (case LOGS_get logType of
              Inl e \<Rightarrow> Inl e
            | Inr lt \<Rightarrow> Inr (colouredLine currentTime logType lt information (msg_text message)))
      else Inr (plainLine currentTime logType information (msg_text message)))"

text \<open>
  The test \<open>self.__getPriority(logType) < self.__getPriority(self.logPriority)\<close>.
\<close>

definition belowPriority :: "logger \<Rightarrow> string \<Rightarrow> error + bool" where
  "belowPriority self logType =
     (case getPriority logType of
        Inl e \<Rightarrow> Inl e
      | Inr p \<Rightarrow>
         (case getPriority (logPriority self) of
            Inl e \<Rightarrow> Inl e
          | Inr q \<Rightarrow> Inr (p < q)))"

text \<open>
  With \<open>__formatJsonLogs\<close> set, the session key is entered into \<open>__sessionLogs\<close> if it
  is missing.
\<close>

definition registerSession :: "logger \<Rightarrow> error + logger" where
  "registerSession self =
     (if formatJsonLogs self
      then (case sessionUuid self of
              None \<Rightarrow> Inl (Raised AttributeError)
            | Some u \<Rightarrow>
               (case sessionLogs self of
                  None \<Rightarrow> Inl (Raised AttributeError)
                | Some logs \<Rightarrow>
                   (if u \<in> fst ` set logs then Inr self
                    else Inr (self\<lparr>sessionLogs := Some (logs @ [(u, [])])\<rparr>))))
      else Inr self)"

text \<open>The final \<open>if\<close> chain of \<open>__log\<close> on \<open>explicitLogConsole\<close> and \<open>showLogInConsole\<close>.\<close>

definition echoed :: "bool option \<Rightarrow> bool \<Rightarrow> string option \<Rightarrow> string option" where
  "echoed explicitLogConsole showLogInConsoleAttr generatedLog =
     (if explicitLogConsole = Some True then generatedLog
      else if explicitLogConsole = Some False \<and> showLogInConsoleAttr then None
      else if showLogInConsoleAttr then generatedLog
      else None)"

text \<open>
  \<open>__log\<close>. The clock reading \<open>__getTime()\<close> and the caller's frame are inputs. The
  result is the returned console string (or \<open>None\<close>) and the logger after the call.
  The call is taken as one step relative to the writer thread.
\<close>

definition log' ::
  "logger \<Rightarrow> string \<Rightarrow> pymsg \<Rightarrow> bool option \<Rightarrow> bool option \<Rightarrow> frameinfo \<Rightarrow> string
     \<Rightarrow> error + (string option \<times> logger)" where
  "log' self logType message showTimeArg explicitLogConsole information now =
     (let currentTime = currentTimeOf self showTimeArg now
      in case generatedLogOf self currentTime logType information message of
           Inl e \<Rightarrow> Inl e
         | Inr generatedLog \<Rightarrow>
            (case logDir self of
               None \<Rightarrow>
                (case belowPriority self logType of
                   Inl e \<Rightarrow> Inl e
                 | Inr below \<Rightarrow>
                    (if below then Inr (None, self) else Inr (Some generatedLog, self)))
             | Some d \<Rightarrow>
                (case belowPriority self logType of
                   Inl e \<Rightarrow> Inl e
                 | Inr below \<Rightarrow>
                    (let generatedLog' = (if below then None else Some generatedLog);
                         currentLog = currentLogOf currentTime logType information message;
                         self1 = self\<lparr>queue := queue self @ [Some currentLog]\<rparr>
                     in case registerSession self1 of
                          Inl e \<Rightarrow> Inl e
                        | Inr self2 \<Rightarrow>
                           Inr (echoed explicitLogConsole (showLogInConsole self2) generatedLog',
                                self2)))))"

text \<open>
  The public methods forward to \<open>__log\<close> and print the returned string when it is not
  \<open>None\<close>; the result of the model is that printed string and the logger.
\<close>

definition DEBUG ::
  "logger \<Rightarrow> pymsg \<Rightarrow> bool option \<Rightarrow> bool option \<Rightarrow> frameinfo \<Rightarrow> string
     \<Rightarrow> error + (string option \<times> logger)" where
  "DEBUG self message showTimeArg showLogInConsoleArg information now =
     log' self ''DEBUG'' message showTimeArg showLogInConsoleArg information now"

definition INFO ::
  "logger \<Rightarrow> pymsg \<Rightarrow> bool option \<Rightarrow> bool option \<Rightarrow> frameinfo \<Rightarrow> string
     \<Rightarrow> error + (string option \<times> logger)" where
  "INFO self message showTimeArg showLogInConsoleArg information now =
     log' self ''INFO'' message showTimeArg showLogInConsoleArg information now"

definition WARNING ::
  "logger \<Rightarrow> pymsg \<Rightarrow> bool option \<Rightarrow> bool option \<Rightarrow> frameinfo \<Rightarrow> string
     \<Rightarrow> error + (string option \<times> logger)" where
  "WARNING self message showTimeArg showLogInConsoleArg information now =
     log' self ''WARNING'' message showTimeArg showLogInConsoleArg information now"

definition ERROR ::
  "logger \<Rightarrow> pymsg \<Rightarrow> bool option \<Rightarrow> bool option \<Rightarrow> frameinfo \<Rightarrow> string
     \<Rightarrow> error + (string option \<times> logger)" where
  "ERROR self message showTimeArg showLogInConsoleArg information now =
     log' self ''ERROR'' message showTimeArg showLogInConsoleArg information now"

definition CRITICAL ::
  "logger \<Rightarrow> pymsg \<Rightarrow> bool option \<Rightarrow> bool option \<Rightarrow> frameinfo \<Rightarrow> string
     \<Rightarrow> error + (string option \<times> logger)" where
  "CRITICAL self message showTimeArg showLogInConsoleArg information now =
     log' self ''CRITICAL'' message showTimeArg showLogInConsoleArg information now"

text \<open>\<open>exception\<close>: the text of \<open>traceback.format_exc()\<close> is an input.\<close>

definition exception ::
  "logger \<Rightarrow> pymsg \<Rightarrow> string \<Rightarrow> bool option \<Rightarrow> bool option \<Rightarrow> frameinfo \<Rightarrow> string
     \<Rightarrow> error + (string option \<times> logger)" where
  "exception self message trace showTimeArg showLogInConsoleArg information now =
     log' self ''ERROR'' (of_str (msg_text message @ [CHR 0x0A] @ trace)) showTimeArg showLogInConsoleArg
       information now"

section \<open>The file system\<close>

text \<open>
  The platform is POSIX and there are no symbolic links. A node of the file system is
  named by the list of the components of its absolute path (the root is the empty list);
  it is a directory or a text file with its content. The set \<open>denied\<close> holds the nodes
  that the process may not create, write or remove (the operation raises \<open>OSError\<close>
  there). \<open>dirsize\<close> is what \<open>stat\<close> reports as the size of a directory, and \<open>cwd\<close> is
  the text of \<open>os.getcwd()\<close>. Text written is stored unchanged, and
  \<open>os.path.getsize\<close> is the length of the UTF-8 encoding.
\<close>

datatype node = Dir | File string

record world =
  fs :: "string list \<Rightarrow> node option"
  denied :: "string list set"
  dirsize :: "string list \<Rightarrow> nat"
  cwd :: string

text \<open>\<open>str.split(c)\<close>.\<close>

fun splitc :: "char \<Rightarrow> string \<Rightarrow> string list" where
  "splitc c [] = [[]]"
| "splitc c (x # xs) =
     (if x = c then [] # splitc c xs
      else (case splitc c xs of [] \<Rightarrow> [[x]] | y # ys \<Rightarrow> (x # y) # ys))"

fun join_with :: "string \<Rightarrow> string list \<Rightarrow> string" where
  "join_with sep [] = []"
| "join_with sep [x] = x"
| "join_with sep (x # y # ys) = x @ sep @ join_with sep (y # ys)"

text \<open>\<open>posixpath.join\<close> of two paths, \<open>posixpath.isabs\<close>, \<open>posixpath.split\<close>.\<close>

definition path_join :: "string \<Rightarrow> string \<Rightarrow> string" where
  "path_join a b =
     (if b \<noteq> [] \<and> hd b = CHR ''/'' then b
      else if a = [] \<or> last a = CHR ''/'' then a @ b
      else a @ ''/'' @ b)"

definition isabs :: "string \<Rightarrow> bool" where
  "isabs p = (p \<noteq> [] \<and> hd p = CHR ''/'')"

definition rstrip_slash :: "string \<Rightarrow> string" where
  "rstrip_slash s = rev (dropWhile (\<lambda>c. c = CHR ''/'') (rev s))"

definition posix_split :: "string \<Rightarrow> string \<times> string" where
  "posix_split p =
     (let tail = rev (takeWhile (\<lambda>c. c \<noteq> CHR ''/'') (rev p));
          head = rev (dropWhile (\<lambda>c. c \<noteq> CHR ''/'') (rev p))
      in (if rstrip_slash head = [] then head else rstrip_slash head, tail))"

text \<open>\<open>posixpath.normpath\<close>: one step of its loop over the components, then the whole.\<close>

definition norm_step :: "nat \<Rightarrow> string list \<Rightarrow> string \<Rightarrow> string list" where
  "norm_step initial_slashes new_comps part =
     (if part = [] \<or> part = ''.'' then new_comps
      else if part = ''..''
      then (if (initial_slashes = 0 \<and> new_comps = []) \<or> (new_comps \<noteq> [] \<and> last new_comps = ''..'')
            then new_comps @ [part]
            else butlast new_comps)
      else new_comps @ [part])"

definition normpath :: "string \<Rightarrow> string" where
  "normpath p =
     (if p = [] then ''.''
      else (let initial_slashes =
                  (if hd p = CHR ''/''
                   then (if take 2 p = ''//'' \<and> take 3 p \<noteq> ''///'' then 2 else 1)
                   else (0::nat));
                new_comps = foldl (norm_step initial_slashes) [] (splitc (CHR ''/'') p);
                q = replicate initial_slashes (CHR ''/'') @ join_with ''/'' new_comps
            in if q = [] then ''.'' else q))"

text \<open>\<open>os.path.abspath\<close>.\<close>

definition abspath :: "world \<Rightarrow> string \<Rightarrow> string" where
  "abspath w p = normpath (if isabs p then p else path_join (cwd w) p)"

text \<open>
  Path resolution: every component is looked up in a directory; \<open>.\<close> and an empty
  component stay there, \<open>..\<close> goes to the parent. The result names the node of the last
  component, which need not exist. The empty path does not resolve.
\<close>

definition node_at :: "world \<Rightarrow> string list \<Rightarrow> node option" where
  "node_at w q = (if q = [] then Some Dir else fs w q)"

fun walk :: "world \<Rightarrow> string list \<Rightarrow> string list \<Rightarrow> string list option" where
  "walk w cur [] = Some cur"
| "walk w cur (c # cs) =
     (if node_at w cur = Some Dir
      then (if c = [] \<or> c = ''.'' then walk w cur cs
            else if c = ''..'' then walk w (butlast cur) cs
            else walk w (cur @ [c]) cs)
      else None)"

definition resolve :: "world \<Rightarrow> string \<Rightarrow> string list option" where
  "resolve w p =
     (if p = [] then None
      else walk w (if isabs p then [] else filter (\<lambda>c. c \<noteq> []) (splitc (CHR ''/'') (cwd w)))
             (splitc (CHR ''/'') p))"

definition path_exists :: "world \<Rightarrow> string \<Rightarrow> bool" where
  "path_exists w p = (case resolve w p of None \<Rightarrow> False | Some q \<Rightarrow> node_at w q \<noteq> None)"

definition path_isdir :: "world \<Rightarrow> string \<Rightarrow> bool" where
  "path_isdir w p = (case resolve w p of None \<Rightarrow> False | Some q \<Rightarrow> node_at w q = Some Dir)"

text \<open>\<open>os.mkdir(p)\<close>; a trailing slash is allowed.\<close>

definition mkdir :: "world \<Rightarrow> string \<Rightarrow> exn + world" where
  "mkdir w p =
     (case resolve w (if rstrip_slash p = [] then p else rstrip_slash p) of
        None \<Rightarrow> Inl OSError
      | Some q \<Rightarrow>
         (if node_at w q \<noteq> None then Inl FileExistsError
          else if q \<in> denied w then Inl OSError
          else Inr (w\<lparr>fs := (fs w)(q \<mapsto> Dir)\<rparr>)))"

text \<open>
  \<open>os.makedirs(name, exist_ok=exist_ok)\<close>: the missing ancestors are created first. The
  result is the exception raised, if any, and the file system as it is then.
\<close>

definition makedirs_split :: "string \<Rightarrow> string \<times> string" where
  "makedirs_split name =
     (if snd (posix_split name) = [] then posix_split (fst (posix_split name))
      else posix_split name)"

function makedirs :: "world \<Rightarrow> string \<Rightarrow> bool \<Rightarrow> exn option \<times> world" where
  "makedirs w name exist_ok =
     (let head = fst (makedirs_split name);
          tail = snd (makedirs_split name);
          up = (if tail \<noteq> [] \<and> head \<noteq> [] \<and> \<not> path_exists w head
                then (case makedirs w head exist_ok of
                        (None, w1) \<Rightarrow> (None, w1, tail = ''.'')
                      | (Some e, w1) \<Rightarrow>
                          (if e = FileExistsError then (None, w1, tail = ''.'')
                           else (Some e, w1, False)))
                else (None, w, False))
      in case up of
           (Some e, w1, returned) \<Rightarrow> (Some e, w1)
         | (None, w1, returned) \<Rightarrow>
            (if returned then (None, w1)
             else (case mkdir w1 name of
                     Inr w2 \<Rightarrow> (None, w2)
                   | Inl e \<Rightarrow>
                      (if exist_ok \<and> path_isdir w1 name then (None, w1) else (Some e, w1)))))"
  by pat_completeness auto
termination
proof (relation "measure (\<lambda>(w, name, exist_ok). length name)")
  show "wf (measure (\<lambda>(w, name, exist_ok). length name))" by simp
next
  fix w :: world and name :: string and exist_ok :: bool and x xa
  assume x: "x = fst (makedirs_split name)" and xa: "xa = snd (makedirs_split name)"
    and c: "xa \<noteq> [] \<and> x \<noteq> [] \<and> \<not> path_exists w x"
  have le: "length (fst (posix_split p)) + length (snd (posix_split p)) \<le> length p" for p
  proof -
    have "length (rstrip_slash s) \<le> length s" for s
      unfolding rstrip_slash_def by (metis length_dropWhile_le length_rev)
    from this[of "rev (dropWhile (\<lambda>c. c \<noteq> CHR ''/'') (rev p))"]
    have "length (fst (posix_split p)) \<le> length (dropWhile (\<lambda>c. c \<noteq> CHR ''/'') (rev p))"
      by (simp add: posix_split_def Let_def)
    moreover have "length (snd (posix_split p)) = length (takeWhile (\<lambda>c. c \<noteq> CHR ''/'') (rev p))"
      by (simp add: posix_split_def Let_def)
    moreover have "length (takeWhile (\<lambda>c. c \<noteq> CHR ''/'') (rev p))
                    + length (dropWhile (\<lambda>c. c \<noteq> CHR ''/'') (rev p)) = length p"
      by (metis length_append length_rev takeWhile_dropWhile_id)
    ultimately show ?thesis by linarith
  qed
  have "length x < length name"
  proof (cases "snd (posix_split name) = []")
    case True
    with x xa have x': "x = fst (posix_split (fst (posix_split name)))"
      and xa': "xa = snd (posix_split (fst (posix_split name)))"
      by (simp_all add: makedirs_split_def)
    have "0 < length xa" using c by simp
    moreover have "length x + length xa \<le> length (fst (posix_split name))"
      unfolding x' xa' by (rule le)
    moreover have "length (fst (posix_split name)) \<le> length name"
      using le[of name] by linarith
    ultimately show ?thesis by linarith
  next
    case False
    with x xa have x': "x = fst (posix_split name)" and xa': "xa = snd (posix_split name)"
      by (simp_all add: makedirs_split_def)
    have "0 < length xa" using c by simp
    moreover have "length x + length xa \<le> length name"
      unfolding x' xa' by (rule le)
    ultimately show ?thesis by linarith
  qed
  then show "((w, x, exist_ok), (w, name, exist_ok)) \<in> measure (\<lambda>(w, name, exist_ok). length name)"
    by simp
qed

declare makedirs.simps [simp del]

text \<open>\<open>open(p, "w")\<close> followed by writing \<open>content\<close> and closing.\<close>

definition write_file :: "world \<Rightarrow> string \<Rightarrow> string \<Rightarrow> exn + world" where
  "write_file w p content =
     (case resolve w p of
        None \<Rightarrow> Inl OSError
      | Some q \<Rightarrow>
         (if node_at w q = Some Dir \<or> q \<in> denied w then Inl OSError
          else Inr (w\<lparr>fs := (fs w)(q \<mapsto> File content)\<rparr>)))"

text \<open>\<open>open(p, "a")\<close> followed by writing \<open>content\<close> and closing.\<close>

definition append_file :: "world \<Rightarrow> string \<Rightarrow> string \<Rightarrow> exn + world" where
  "append_file w p content =
     (case resolve w p of
        None \<Rightarrow> Inl OSError
      | Some q \<Rightarrow>
         (if q \<in> denied w then Inl OSError
          else case node_at w q of
                 Some Dir \<Rightarrow> Inl OSError
               | Some (File old) \<Rightarrow> Inr (w\<lparr>fs := (fs w)(q \<mapsto> File (old @ content))\<rparr>)
               | None \<Rightarrow> Inr (w\<lparr>fs := (fs w)(q \<mapsto> File content)\<rparr>)))"

text \<open>\<open>open(p, "r").read()\<close>.\<close>

definition read_file :: "world \<Rightarrow> string \<Rightarrow> exn + string" where
  "read_file w p =
     (case resolve w p of
        None \<Rightarrow> Inl OSError
      | Some q \<Rightarrow>
         (case node_at w q of
            Some (File c) \<Rightarrow> Inr c
          | Some Dir \<Rightarrow> Inl OSError
          | None \<Rightarrow> Inl OSError))"

definition utf8_len :: "string \<Rightarrow> nat" where
  "utf8_len s = sum_list (map (\<lambda>c. if (of_char c :: nat) < 128 then 1 else 2) s)"

text \<open>\<open>os.path.getsize(p)\<close>.\<close>

definition getsize :: "world \<Rightarrow> string \<Rightarrow> exn + nat" where
  "getsize w p =
     (case resolve w p of
        None \<Rightarrow> Inl OSError
      | Some q \<Rightarrow>
         (case node_at w q of
            Some (File c) \<Rightarrow> Inr (utf8_len c)
          | Some Dir \<Rightarrow> Inr (dirsize w q)
          | None \<Rightarrow> Inl OSError))"

text \<open>\<open>os.remove(p)\<close>.\<close>

definition remove_file :: "world \<Rightarrow> string \<Rightarrow> exn + world" where
  "remove_file w p =
     (case resolve w p of
        None \<Rightarrow> Inl OSError
      | Some q \<Rightarrow>
         (case node_at w q of
            Some (File c) \<Rightarrow>
              (if q \<in> denied w then Inl OSError else Inr (w\<lparr>fs := (fs w)(q := None)\<rparr>))
          | Some Dir \<Rightarrow> Inl OSError
          | None \<Rightarrow> Inl OSError))"

section \<open>JSON output\<close>

text \<open>\<open>py_encode_string\<close> is the string encoder of the \<open>json\<close> module with \<open>ensure_ascii=True\<close>.\<close>

definition hexdigit :: "nat \<Rightarrow> char" where
  "hexdigit n = (if n < 10 then char_of (48 + n) else char_of (87 + n))"

definition escape_char :: "char \<Rightarrow> string" where
  "escape_char c =
     (let n = (of_char c :: nat)
      in if n = 34 then [CHR 0x5C, CHR 0x22]
         else if n = 92 then [CHR 0x5C, CHR 0x5C]
         else if n = 10 then [CHR 0x5C, CHR ''n'']
         else if n = 13 then [CHR 0x5C, CHR ''r'']
         else if n = 9 then [CHR 0x5C, CHR ''t'']
         else if n = 8 then [CHR 0x5C, CHR ''b'']
         else if n = 12 then [CHR 0x5C, CHR ''f'']
         else if 32 \<le> n \<and> n \<le> 126 then [c]
         else [CHR 0x5C, CHR ''u'', CHR ''0'', CHR ''0'', hexdigit (n div 16), hexdigit (n mod 16)])"

definition py_encode_string :: "string \<Rightarrow> string" where
  "py_encode_string s = CHR 0x22 # concat (map escape_char s) @ [CHR 0x22]"

text \<open>
  \<open>json.dumps(v)\<close>: separators \<open>", "\<close> and \<open>": "\<close>, no line breaks. The text is built
  in one piece; a value that cannot be serialised anywhere inside raises \<open>TypeError\<close>.
\<close>

fun serialisable :: "json \<Rightarrow> bool" where
  "serialisable (JString s) = True"
| "serialisable (JLiteral s) = True"
| "serialisable (JArray xs) = list_all serialisable xs"
| "serialisable (JObject kvs) = list_all (\<lambda>kv. serialisable (snd kv)) kvs"
| "serialisable JOpaque = False"

fun dumps_text :: "json \<Rightarrow> string" where
  "dumps_text (JString s) = py_encode_string s"
| "dumps_text (JLiteral s) = s"
| "dumps_text (JArray xs) = ''['' @ join_with '', '' (map dumps_text xs) @ '']''"
| "dumps_text (JObject kvs) =
     ''{'' @ join_with '', ''
               (map (\<lambda>kv. py_encode_string (fst kv) @ '': '' @ dumps_text (snd kv)) kvs) @ ''}''"
| "dumps_text JOpaque = []"

definition dumps :: "json \<Rightarrow> exn + string" where
  "dumps v = (if serialisable v then Inr (dumps_text v) else Inl TypeError)"

text \<open>
  \<open>json.dump(v, f, indent=2)\<close> writes the text piece by piece: every item on a line of
  its own, indented by two spaces per level, empty containers as \<open>[]\<close> and \<open>{}\<close>.
  \<open>iterencode lvl v\<close> is the text written for \<open>v\<close> at nesting depth \<open>lvl\<close> and whether
  the encoder has finished; when it has not, it has raised \<open>TypeError\<close> at the first
  value that cannot be serialised, after writing what comes before it.
\<close>

definition newline_indent :: "nat \<Rightarrow> string" where
  "newline_indent lvl = CHR 0x0A # replicate (2 * lvl) (CHR '' '')"

fun cat_until :: "string \<Rightarrow> (string \<times> bool) list \<Rightarrow> string \<times> bool" where
  "cat_until sep [] = ([], True)"
| "cat_until sep [x] = x"
| "cat_until sep (x # y # ys) =
     (if snd x then (fst x @ sep @ fst (cat_until sep (y # ys)), snd (cat_until sep (y # ys)))
      else x)"

fun iterencode :: "nat \<Rightarrow> json \<Rightarrow> string \<times> bool" where
  "iterencode lvl (JString s) = (py_encode_string s, True)"
| "iterencode lvl (JLiteral s) = (s, True)"
| "iterencode lvl (JArray xs) =
     (if xs = [] then (''[]'', True)
      else (let r = cat_until ('','' @ newline_indent (Suc lvl)) (map (iterencode (Suc lvl)) xs)
            in (''['' @ newline_indent (Suc lvl) @ fst r
                  @ (if snd r then newline_indent lvl @ '']'' else []),
                snd r)))"
| "iterencode lvl (JObject kvs) =
     (if kvs = [] then (''{}'', True)
      else (let r = cat_until ('','' @ newline_indent (Suc lvl))
                      (map (\<lambda>kv. (py_encode_string (fst kv) @ '': ''
                                     @ fst (iterencode (Suc lvl) (snd kv)),
                                   snd (iterencode (Suc lvl) (snd kv)))) kvs)
            in (''{'' @ newline_indent (Suc lvl) @ fst r
                  @ (if snd r then newline_indent lvl @ ''}'' else []),
                snd r)))"
| "iterencode lvl JOpaque = ([], False)"

definition json_of_logrec :: "logrec \<Rightarrow> json" where
  "json_of_logrec r =
     JObject [(''Timestamp'', JString (Timestamp r)), (''Level'', JString (Level r)),
              (''Path'', JString (Path r)), (''Module'', JString (Module r)),
              (''Line'', JString (Line r)), (''Message'', msg_json (Message r))]"

definition json_of_sessionLogs :: "(string \<times> logrec list) list \<Rightarrow> json" where
  "json_of_sessionLogs logs =
     JObject (map (\<lambda>kv. (fst kv, JArray (map json_of_logrec (snd kv)))) logs)"

section \<open>Construction\<close>

text \<open>The keyword arguments of \<open>SoleLog.__init__\<close> and their defaults.\<close>

record args =
  arg_colouredLog :: bool
  arg_showTime :: bool
  arg_logPriority :: string
  arg_logSaveFormat :: string
  arg_logDirPath :: "string option"
  arg_logDirName :: string
  arg_flushInterval :: rat
  arg_maxLogSizeMb :: rat
  arg_showLogInConsole :: bool
  arg_formatJsonLog :: bool
  arg_makeNewLogDir :: bool

definition default_args :: "bool \<Rightarrow> bool \<Rightarrow> args" where
  "default_args colouredLogArg showTimeArg =
     \<lparr>arg_colouredLog = colouredLogArg, arg_showTime = showTimeArg,
      arg_logPriority = ''DEBUG'', arg_logSaveFormat = ''json'', arg_logDirPath = None,
      arg_logDirName = ''myLog'', arg_flushInterval = 0, arg_maxLogSizeMb = 5,
      arg_showLogInConsole = True, arg_formatJsonLog = False, arg_makeNewLogDir = True\<rparr>"

definition logFileName :: "string \<Rightarrow> string \<Rightarrow> nat \<Rightarrow> string \<Rightarrow> string" where
  "logFileName dirName startTime n ext =
     dirName @ ''_'' @ startTime @ ''('' @ str_nat n @ '')'' @ ext"

text \<open>
  \<open>__init__\<close>. The session start time (\<open>datetime.now()\<close> formatted
  \<open>%Y-%m-%d_%H-%M-%S\<close>) and the fresh \<open>uuid4\<close> are inputs. An exception inside the
  \<open>try\<close> block is caught, printed and answered with \<open>sys.exit(1)\<close>. Starting the writer
  thread succeeds.
\<close>

definition init :: "args \<Rightarrow> string \<Rightarrow> string \<Rightarrow> world \<Rightarrow> error + (logger \<times> world)" where
  "init a startTime uuid w =
     (let self =
            \<lparr>queue = [], sessions = 1, logDir = None,
             logSaveFormat = strip (lower (arg_logSaveFormat a)),
             logDirName = arg_logDirName a, makeNewLogDir = arg_makeNewLogDir a,
             logPriority = upper (arg_logPriority a),
             formatJsonLogs = arg_formatJsonLog a,
             colouredLog = arg_colouredLog a, showTime = arg_showTime a,
             flushInterval = arg_flushInterval a,
             maxLogSize = arg_maxLogSizeMb a * 1024 * 1024,
             showLogInConsole = arg_showLogInConsole a,
             sessionUuid = (if arg_formatJsonLog a then Some uuid else None),
             sessionLogs = (if arg_formatJsonLog a then Some [] else None),
             rootDir = None, sessionStartTime = None, logFile = None,
             writerRunning = True\<rparr>
      in case arg_logDirPath a of
           None \<Rightarrow> Inr (self, w)
         | Some logDirPath \<Rightarrow>
            (let d = abspath w logDirPath
             in case (if \<not> path_exists w d
                      then (case makedirs w d False of
                              (Some e, w1) \<Rightarrow> Inl (Exited InvalidPath)
                            | (None, w1) \<Rightarrow> Inr w1)
                      else Inr w) of
                  Inl e \<Rightarrow> Inl e
                | Inr w1 \<Rightarrow>
                   (if \<not> path_isdir w1 d then Inl (Exited NotADirectory)
                    else
                      (let rootPath = (if makeNewLogDir self then path_join d (logDirName self) else d);
                           self1 = self\<lparr>logDir := Some d, rootDir := Some rootPath,
                                        sessionStartTime := Some startTime\<rparr>
                       in case (if logSaveFormat self1 = ''json''
                                then Inr (self1\<lparr>logFile := Some (path_join rootPath
                                            (logFileName (logDirName self1) startTime
                                               (sessions self1) ''.json'')),
                                          sessions := sessions self1 + 1\<rparr>)
                                else if logSaveFormat self1 = ''txt''
                                then Inr (self1\<lparr>logFile := Some (path_join rootPath
                                            (logFileName (logDirName self1) startTime
                                               (sessions self1) ''.txt'')),
                                          sessions := sessions self1 + 1\<rparr>)
                                else Inl (Exited InvalidFormat)) of
                            Inl e \<Rightarrow> Inl e
                          | Inr self2 \<Rightarrow>
                             (case makedirs w1 rootPath True of
                                (Some e, w2) \<Rightarrow> Inl (Exited e)
                              | (None, w2) \<Rightarrow>
                                 (case logFile self2 of
                                    None \<Rightarrow> Inl (Exited AttributeError)
                                  | Some f \<Rightarrow>
                                     (case write_file w2 f [] of
                                        Inl e \<Rightarrow> Inl (Exited e)
                                      | Inr w3 \<Rightarrow> Inr (self2, w3))))))))"

text \<open>\<open>getSessionStartTime\<close> and \<open>logFilePath\<close>.\<close>

definition getSessionStartTime :: "logger \<Rightarrow> error + string" where
  "getSessionStartTime self =
     (case sessionStartTime self of None \<Rightarrow> Inl (Raised AttributeError) | Some t \<Rightarrow> Inr t)"

definition logFilePath :: "logger \<Rightarrow> error + string" where
  "logFilePath self =
     (case logFile self of None \<Rightarrow> Inl (Raised AttributeError) | Some f \<Rightarrow> Inr f)"

section \<open>Rotation and the writer loop\<close>

text \<open>
  The methods run by the writer thread return the logger and the file system as they are
  when an exception ends the thread, together with that exception.
\<close>

definition nextLogFile :: "logger \<Rightarrow> string \<Rightarrow> exn + string" where
  "nextLogFile self ext =
     (case rootDir self of
        None \<Rightarrow> Inl AttributeError
      | Some rootPath \<Rightarrow>
         (case sessionStartTime self of
            None \<Rightarrow> Inl AttributeError
          | Some startTime \<Rightarrow>
             Inr (path_join rootPath (logFileName (logDirName self) startTime (sessions self) ext))))"

text \<open>\<open>__logRotation\<close>.\<close>

definition logRotation :: "logger \<Rightarrow> world \<Rightarrow> (exn \<times> logger \<times> world) + (logger \<times> world)" where
  "logRotation self w =
     (case logFile self of
        None \<Rightarrow> Inl (AttributeError, self, w)
      | Some f \<Rightarrow>
         (case getsize w f of
            Inl e \<Rightarrow> Inl (e, self, w)
          | Inr sz \<Rightarrow>
             (if of_nat sz \<ge> maxLogSize self
              then (case (if logSaveFormat self = ''json''
                          then map_sum id Some (nextLogFile self ''.json'')
                          else if logSaveFormat self = ''txt''
                          then map_sum id Some (nextLogFile self ''.txt'')
                          else Inr (logFile self)) of
                      Inl e \<Rightarrow> Inl (e, self, w)
                    | Inr f' \<Rightarrow>
                       (let self1 = self\<lparr>logFile := f', sessions := sessions self + 1\<rparr>
                        in case f' of
                             None \<Rightarrow> Inl (AttributeError, self1, w)
                           | Some g \<Rightarrow>
                              (case write_file w g [] of
                                 Inl e \<Rightarrow> Inl (e, self1, w)
                               | Inr w' \<Rightarrow> Inr (self1, w'))))
              else Inr (self, w))))"

text \<open>The line that the \<open>txt\<close> format writes for a record.\<close>

definition txtLine :: "logrec \<Rightarrow> string" where
  "txtLine r =
     ''['' @ Timestamp r @ ''] -> ['' @ ljust 8 (Level r) @ ''] - '' @ msg_text (Message r) @ [CHR 0x0A]"

text \<open>\<open>self.__sessionLogs[self.sessionUuid].append(r)\<close>.\<close>

definition appendSessionLog :: "logger \<Rightarrow> logrec \<Rightarrow> exn + logger" where
  "appendSessionLog self r =
     (case sessionLogs self of
        None \<Rightarrow> Inl AttributeError
      | Some logs \<Rightarrow>
         (case sessionUuid self of
            None \<Rightarrow> Inl AttributeError
          | Some u \<Rightarrow>
             (if u \<in> fst ` set logs
              then Inr (self\<lparr>sessionLogs :=
                          Some (map (\<lambda>kv. if fst kv = u then (fst kv, snd kv @ [r]) else kv) logs)\<rparr>)
              else Inl KeyError)))"

text \<open>
  The write of one record in the configured format, the body of \<open>with self.__lock\<close>
  after the session list has been extended. The result is the exception raised, if any,
  and the file system as it is then: in the aggregate format the file has been truncated
  and holds what the encoder wrote before a \<open>TypeError\<close>; in the format of one JSON
  object per line the file has been opened for appending before \<open>json.dumps\<close> raises.
\<close>

definition persist :: "logger \<Rightarrow> world \<Rightarrow> logrec \<Rightarrow> exn option \<times> world" where
  "persist self w collectedLogs =
     (if logSaveFormat self = ''json'' \<and> formatJsonLogs self
      then (case logFile self of
              None \<Rightarrow> (Some AttributeError, w)
            | Some f \<Rightarrow>
               (case sessionLogs self of
                  None \<Rightarrow>
                    (case write_file w f [] of
                       Inl e \<Rightarrow> (Some e, w)
                     | Inr w1 \<Rightarrow> (Some AttributeError, w1))
                | Some logs \<Rightarrow>
                    (case write_file w f (fst (iterencode 0 (json_of_sessionLogs logs))) of
                       Inl e \<Rightarrow> (Some e, w)
                     | Inr w1 \<Rightarrow>
                        (if snd (iterencode 0 (json_of_sessionLogs logs)) then (None, w1)
                         else (Some TypeError, w1)))))
      else if logSaveFormat self = ''json'' \<and> \<not> formatJsonLogs self
      then (case logFile self of
              None \<Rightarrow> (Some AttributeError, w)
            | Some f \<Rightarrow>
               (case dumps (json_of_logrec collectedLogs) of
                  Inl e \<Rightarrow>
                    (case append_file w f [] of
                       Inl e' \<Rightarrow> (Some e', w)
                     | Inr w1 \<Rightarrow> (Some e, w1))
                | Inr line \<Rightarrow>
                    (case append_file w f (line @ [CHR 0x0A]) of
                       Inl e \<Rightarrow> (Some e, w)
                     | Inr w1 \<Rightarrow> (None, w1))))
      else if logSaveFormat self = ''txt''
      then (case logFile self of
              None \<Rightarrow> (Some AttributeError, w)
            | Some f \<Rightarrow>
               (case append_file w f (txtLine collectedLogs) of
                  Inl e \<Rightarrow> (Some e, w)
                | Inr w1 \<Rightarrow> (None, w1)))
      else (None, w))"

text \<open>
  The body of the loop of \<open>__writeToFile\<close> for one dequeued record: the rotation check,
  the write, and \<open>time.sleep(self.flushInterval)\<close>, which raises \<open>ValueError\<close> on a
  negative interval. An exception ends the thread.
\<close>

definition writeRecord ::
  "logger \<Rightarrow> world \<Rightarrow> logrec \<Rightarrow> (exn \<times> logger \<times> world) + (logger \<times> world)" where
  "writeRecord self w collectedLogs =
     (case logRotation self w of
        Inl x \<Rightarrow> Inl x
      | Inr (self1, w1) \<Rightarrow>
         (case (if formatJsonLogs self1 then appendSessionLog self1 collectedLogs
                else Inr self1) of
            Inl e \<Rightarrow> Inl (e, self1, w1)
          | Inr self2 \<Rightarrow>
             (case persist self2 w1 collectedLogs of
                (Some e, w2) \<Rightarrow> Inl (e, self2, w2)
              | (None, w2) \<Rightarrow>
                 (if flushInterval self2 < 0 then Inl (ValueError, self2, w2)
                  else Inr (self2, w2)))))"

text \<open>
  \<open>__writeToFile\<close> on the items waiting in the queue: it stops when the queue is empty
  (blocked in \<open>get\<close>), at the sentinel, or at the first exception, which ends the thread.
  The result is that exception if any, the items left in the queue, the logger and the
  file system.
\<close>

fun writeToFile ::
  "logrec option list \<Rightarrow> logger \<Rightarrow> world \<Rightarrow> exn option \<times> logrec option list \<times> logger \<times> world" where
  "writeToFile [] self w = (None, [], self, w)"
| "writeToFile (None # rest) self w = (None, rest, self\<lparr>writerRunning := False\<rparr>, w)"
| "writeToFile (Some r # rest) self w =
     (case writeRecord self w r of
        Inl (e, self', w') \<Rightarrow> (Some e, rest, self'\<lparr>writerRunning := False\<rparr>, w')
      | Inr (self', w') \<Rightarrow> writeToFile rest self' w')"

text \<open>The writer thread runs, if it is alive, on what the queue holds.\<close>

definition runWriter :: "logger \<Rightarrow> world \<Rightarrow> exn option \<times> logger \<times> world" where
  "runWriter self w =
     (if writerRunning self
      then (case writeToFile (queue self) self w of
              (e, rest, self', w') \<Rightarrow> (e, self'\<lparr>queue := rest\<rparr>, w'))
      else (None, self, w))"

section \<open>Shutdown\<close>

text \<open>What \<open>close\<close> prints.\<close>

datatype report = ShutdownCompleted | NoLogsDeleting string | CantDelete string

text \<open>
  \<open>close\<close>: the sentinel is enqueued, \<open>join\<close> waits for the writer thread to end, then
  the active file is read.
\<close>

definition close :: "logger \<Rightarrow> world \<Rightarrow> error + (report list \<times> logger \<times> world)" where
  "close self w =
     (case runWriter (self\<lparr>queue := queue self @ [None]\<rparr>) w of
        (e, self1, w1) \<Rightarrow>
          (case logFile self1 of
             None \<Rightarrow> Inl (Raised AttributeError)
           | Some f \<Rightarrow>
              (case read_file w1 f of
                 Inl x \<Rightarrow> Inl (Raised x)
               | Inr content \<Rightarrow>
                  (if content \<noteq> [] then Inr ([ShutdownCompleted], self1, w1)
                   else (case logDir self1 of
                           None \<Rightarrow> Inr ([NoLogsDeleting f, CantDelete f], self1, w1)
                         | Some d \<Rightarrow>
                            (case remove_file w1 (path_join d f) of
                               Inl x \<Rightarrow> Inr ([NoLogsDeleting f, CantDelete f], self1, w1)
                             | Inr w2 \<Rightarrow>
                                Inr ([NoLogsDeleting f, ShutdownCompleted], self1, w2)))))))"

section \<open>Later states of a logger\<close>

text \<open>
  The states that a logger reaches by calls of \<open>__log\<close> that return and by runs of the
  writer thread, on any file system.
\<close>

inductive later :: "logger \<Rightarrow> logger \<Rightarrow> bool" for self :: logger where
  later_now: "later self self"
| later_log:
    "later self s \<Longrightarrow> log' s logType message showTimeArg echo information now = Inr (out, s')
       \<Longrightarrow> later self s'"
| later_writer: "later self s \<Longrightarrow> runWriter s w = (e, s', w') \<Longrightarrow> later self s'"

definition no_file_attrs :: "logger \<Rightarrow> bool" where
  "no_file_attrs s = (logFile s = None \<and> sessionStartTime s = None \<and> rootDir s = None)"

section \<open>File names by counter\<close>

text \<open>
  The name that the specification gives to the \<open>n\<close>-th file of a session:
  \<open>{dirName}_{sessionStartTime}({n}).{ext}\<close> in the root directory, where the extension
  is the save format.
\<close>

definition rotatedName :: "logger \<Rightarrow> nat \<Rightarrow> string option" where
  "rotatedName self n =
     (case rootDir self of
        None \<Rightarrow> None
      | Some rootPath \<Rightarrow>
         (case sessionStartTime self of
            None \<Rightarrow> None
          | Some startTime \<Rightarrow>
             Some (path_join rootPath
                     (logDirName self @ ''_'' @ startTime @ ''('' @ str_nat n @ '').''
                        @ logSaveFormat self))))"

text \<open>
  The state of a logger that writes to files: the format is one of the two, the
  directory attributes exist, and the active file is the one named by the counter's
  previous value.
\<close>

definition file_mode :: "logger \<Rightarrow> bool" where
  "file_mode self =
     ((logSaveFormat self = ''json'' \<or> logSaveFormat self = ''txt'')
      \<and> logDir self \<noteq> None \<and> rootDir self \<noteq> None \<and> sessionStartTime self \<noteq> None
      \<and> 2 \<le> sessions self
      \<and> logFile self = rotatedName self (sessions self - 1))"

section \<open>The line formats of the specification\<close>

text \<open>
  The JSON-per-line format as the specification describes it, written out: one compact
  JSON object with the keys \<open>Timestamp\<close>, \<open>Level\<close>, \<open>Path\<close>, \<open>Module\<close>, \<open>Line\<close>,
  \<open>Message\<close> in this order, the first five values as JSON strings and the message as
  its JSON text.
\<close>

definition quoted :: "string \<Rightarrow> string" where
  "quoted s = CHR 0x22 # s @ [CHR 0x22]"

definition json_line ::
  "string \<Rightarrow> string \<Rightarrow> string \<Rightarrow> string \<Rightarrow> string \<Rightarrow> string \<Rightarrow> string" where
  "json_line timestampText levelText pathText moduleText lineText messageJson =
     ''{'' @ quoted ''Timestamp'' @ '': '' @ py_encode_string timestampText
     @ '', '' @ quoted ''Level'' @ '': '' @ py_encode_string levelText
     @ '', '' @ quoted ''Path'' @ '': '' @ py_encode_string pathText
     @ '', '' @ quoted ''Module'' @ '': '' @ py_encode_string moduleText
     @ '', '' @ quoted ''Line'' @ '': '' @ py_encode_string lineText
     @ '', '' @ quoted ''Message'' @ '': '' @ messageJson @ ''}''"

text \<open>
  The text format as the specification describes it:
  \<open>[{timestamp}] -> [{level padded to 8}] - {message}\<close>.
\<close>

definition txt_line :: "string \<Rightarrow> string \<Rightarrow> string \<Rightarrow> string" where
  "txt_line timestampText levelName messageText =
     ''['' @ timestampText @ ''] -> ['' @ ljust 8 levelName @ ''] - '' @ messageText"

section \<open>Concrete inputs\<close>

text \<open>
  A file system holding the directories \<open>/var\<close> and \<open>/var/log\<close> and nothing else, with
  \<open>/var\<close> the current directory, a caller's frame, a session start time and a clock
  reading, used where a theorem runs the code.
\<close>

definition example_world :: world where
  "example_world =
     \<lparr>fs = [[''var''] \<mapsto> Dir, [''var'', ''log''] \<mapsto> Dir], denied = {},
      dirsize = (\<lambda>q. 4096), cwd = ''/var''\<rparr>"

definition example_frame :: frameinfo where
  "example_frame = \<lparr>fi_filename = ''/app/main.py'', fi_function = ''main'', fi_lineno = 42\<rparr>"

definition example_start :: string where
  "example_start = ''2024-01-01_10-00-00''"

definition example_now :: string where
  "example_now = ''2024-01-01 10:00:00.123''"

section \<open>The priority filter\<close>

lemma getPriority_canonical:
  "getPriority ''DEBUG'' = Inr 0" "getPriority ''INFO'' = Inr 1"
  "getPriority ''WARNING'' = Inr 2" "getPriority ''ERROR'' = Inr 3"
  "getPriority ''CRITICAL'' = Inr 4"
  by code_simp+

lemma getPriority_Inr_canonical:
  assumes "getPriority level = Inr i"
  shows "level \<in> set LOGGINGLEVELS"
proof -
  from assms have "list_index LOGGINGLEVELS level \<noteq> None"
    by (auto simp: getPriority_def split: if_splits option.splits)
  then show ?thesis
    by (auto simp: LOGGINGLEVELS_def split: if_splits)
qed

text \<open>
  C2. The rank function \<open>__getPriority\<close> guards with \<open>level.upper()\<close> but looks up
  \<open>level\<close> itself: on the lower-case name \<open>debug\<close> the guard passes and the lookup
  \<open>list.index\<close> raises, so the function fails on a canonical name written in lower case.
\<close>

theorem getPriority_lowercase_fails:
  "upper ''debug'' \<in> set LOGGINGLEVELS \<and> getPriority ''debug'' = Inl (Raised NotInList)"
  by code_simp

section \<open>Records below the minimum priority\<close>

text \<open>
  C1. A logger with an output directory and minimum priority \<open>WARNING\<close> receives one
  \<open>DEBUG\<close> call with \<open>showLogInConsole=True\<close>. No console string is returned, but the
  record is placed into the queue and the writer appends its line to the log file.
\<close>

theorem below_priority_record_is_queued_and_written:
  "(case init ((default_args False False)
                 \<lparr>arg_logDirPath := Some ''/var/log'', arg_logPriority := ''WARNING'',
                  arg_logSaveFormat := ''txt''\<rparr>) example_start ''u1'' example_world of
      Inl e \<Rightarrow> False
    | Inr (self, w) \<Rightarrow>
       (case DEBUG self (of_str ''x'') None (Some True) example_frame example_now of
          Inl e \<Rightarrow> False
        | Inr (out, self1) \<Rightarrow>
           out = None
           \<and> queue self1 =
               [Some \<lparr>Timestamp = [], Level = ''DEBUG   '',
                      Path = ljust 65 ''/app/main.py'', Module = ''main      '',
                      Line = ''42   '', Message = of_str ''x''\<rparr>]
           \<and> (case runWriter self1 w of
                 (e, self2, w2) \<Rightarrow>
                   e = None \<and> queue self2 = []
                   \<and> read_file w2 ''/var/log/myLog/myLog_2024-01-01_10-00-00(1).txt'' =
                       Inr (''[] -> [DEBUG   ] - x'' @ [CHR 0x0A]))))"
  by code_simp

section \<open>Console echo\<close>

text \<open>
  C8. A logger without an output directory and with \<open>showLogInConsole=False\<close> receives
  one \<open>INFO\<close> call with \<open>showLogInConsole=False\<close>. The echo policy resolves to false,
  yet the console string is returned and printed.
\<close>

theorem console_only_ignores_echo_policy:
  "(case init ((default_args False False)\<lparr>arg_showLogInConsole := False\<rparr>)
           example_start ''u1'' example_world of
      Inl e \<Rightarrow> False
    | Inr (self, w) \<Rightarrow>
       logDir self = None \<and> showLogInConsole self = False
       \<and> INFO self (of_str ''x'') None (Some False) example_frame example_now =
           Inr (Some (plainLine [] ''INFO'' example_frame ''x''), self))"
  by code_simp

section \<open>Shutdown\<close>

text \<open>
  C6. A logger with an output directory and minimum priority \<open>WARNING\<close> receives one
  \<open>DEBUG\<close> call, which the priority filter does not admit, and is closed. The writer has
  written the record, so \<open>close\<close> finds the file non-empty, reports a successful
  shutdown and does not delete the file.
\<close>

theorem close_keeps_file_of_filtered_record:
  "(case init ((default_args False False)
                 \<lparr>arg_logDirPath := Some ''/var/log'', arg_logPriority := ''WARNING'',
                  arg_logSaveFormat := ''txt''\<rparr>) example_start ''u1'' example_world of
      Inl e \<Rightarrow> False
    | Inr (self, w) \<Rightarrow>
       (case DEBUG self (of_str ''x'') None None example_frame example_now of
          Inl e \<Rightarrow> False
        | Inr (out, self1) \<Rightarrow>
           out = None
           \<and> (case close self1 w of
                 Inl e \<Rightarrow> False
               | Inr (reports, self2, w2) \<Rightarrow>
                   reports = [ShutdownCompleted]
                   \<and> logFile self2 = Some ''/var/log/myLog/myLog_2024-01-01_10-00-00(1).txt''
                   \<and> read_file w2 ''/var/log/myLog/myLog_2024-01-01_10-00-00(1).txt'' =
                       Inr (''[] -> [DEBUG   ] - x'' @ [CHR 0x0A]))))"
  by code_simp

section \<open>A logger without an output directory\<close>

lemma init_without_directory:
  assumes "arg_logDirPath a = None"
  shows "\<exists>self. init a startTime uuid w = Inr (self, w) \<and> no_file_attrs self"
  using assms by (simp add: init_def Let_def no_file_attrs_def)

lemma registerSession_Inr:
  assumes "registerSession s = Inr s'"
  shows "s' = s \<or> (\<exists>l. s' = s\<lparr>sessionLogs := l\<rparr>)"
  using assms
  by (auto simp: registerSession_def split: if_splits option.splits)

lemma belowPriority_Inr:
  assumes "belowPriority self logType = Inr b"
  shows "logType \<in> set LOGGINGLEVELS"
proof -
  from assms obtain p where "getPriority logType = Inr p"
    by (auto simp: belowPriority_def split: sum.splits)
  then show ?thesis by (rule getPriority_Inr_canonical)
qed

lemma log'_Inr:
  assumes "log' self logType message showTimeArg echo information now = Inr (out, self')"
  shows "logType \<in> set LOGGINGLEVELS"
    and "logDir self = None \<Longrightarrow> self' = self"
    and "logDir self \<noteq> None \<Longrightarrow>
           registerSession (self\<lparr>queue := queue self
              @ [Some (currentLogOf (currentTimeOf self showTimeArg now) logType information message)]\<rparr>)
             = Inr self'"
proof -
  from assms obtain b where "belowPriority self logType = Inr b"
    by (cases "logDir self") (auto simp: log'_def Let_def split: sum.splits)
  then show "logType \<in> set LOGGINGLEVELS" by (rule belowPriority_Inr)
next
  assume "logDir self = None"
  with assms show "self' = self"
    by (auto simp: log'_def Let_def split: sum.splits if_splits)
next
  assume "logDir self \<noteq> None"
  then obtain d where "logDir self = Some d" by auto
  with assms show "registerSession (self\<lparr>queue := queue self
              @ [Some (currentLogOf (currentTimeOf self showTimeArg now) logType information message)]\<rparr>)
             = Inr self'"
    by (auto simp: log'_def Let_def split: sum.splits)
qed

lemma log'_queue:
  assumes "log' self logType message showTimeArg echo information now = Inr (out, self')"
    and "logDir self \<noteq> None"
  shows "queue self' = queue self
           @ [Some (currentLogOf (currentTimeOf self showTimeArg now) logType information message)]"
  using registerSession_Inr[OF log'_Inr(3)[OF assms]] by auto

lemma log'_file_attrs:
  assumes "log' s logType message showTimeArg echo information now = Inr (out, s')"
  shows "logFile s' = logFile s \<and> sessionStartTime s' = sessionStartTime s
           \<and> rootDir s' = rootDir s \<and> logDir s' = logDir s"
proof (cases "logDir s")
  case None
  with log'_Inr(2)[OF assms] show ?thesis by simp
next
  case (Some d)
  then have "logDir s \<noteq> None" by simp
  from registerSession_Inr[OF log'_Inr(3)[OF assms this]] show ?thesis by auto
qed


lemma writeToFile_no_file:
  assumes "logFile s = None" and "writeToFile q s w = (e, rest, s', w')"
  shows "logFile s' = None \<and> sessionStartTime s' = sessionStartTime s \<and> rootDir s' = rootDir s"
proof (cases q)
  case Nil
  with assms show ?thesis by simp
next
  case (Cons x xs)
  show ?thesis
  proof (cases x)
    case None
    with Cons assms show ?thesis by auto
  next
    case (Some r)
    from assms(1) have "writeRecord s w r = Inl (AttributeError, s, w)"
      by (simp add: writeRecord_def logRotation_def)
    with Some Cons assms show ?thesis by auto
  qed
qed

lemma runWriter_no_file:
  assumes "no_file_attrs s" and "runWriter s w = (e, s', w')"
  shows "no_file_attrs s'"
proof (cases "writerRunning s")
  case False
  with assms show ?thesis by (simp add: runWriter_def)
next
  case True
  obtain e1 rest s1 w1 where r: "writeToFile (queue s) s w = (e1, rest, s1, w1)"
    by (cases "writeToFile (queue s) s w") auto
  with True assms(2) have "s' = s1\<lparr>queue := rest\<rparr>" by (simp add: runWriter_def)
  moreover from assms(1) have lf: "logFile s = None" by (simp add: no_file_attrs_def)
  note writeToFile_no_file[OF lf r]
  ultimately show ?thesis using assms(1) by (simp add: no_file_attrs_def)
qed

lemma later_no_file:
  assumes "later self s" and "no_file_attrs self"
  shows "no_file_attrs s"
  using assms
proof (induction rule: later.induct)
  case later_now
  then show ?case by simp
next
  case (later_log s logType message showTimeArg echo information now out s')
  then show ?case using log'_file_attrs[OF later_log.hyps(2)] by (simp add: no_file_attrs_def)
next
  case (later_writer s w e s' w')
  then show ?case using runWriter_no_file by blast
qed

lemma close_no_file:
  assumes "no_file_attrs s"
  shows "close s w = Inl (Raised AttributeError)"
proof -
  let ?s0 = "s\<lparr>queue := queue s @ [None]\<rparr>"
  obtain e s1 w1 where r: "runWriter ?s0 w = (e, s1, w1)"
    by (cases "runWriter ?s0 w") auto
  from assms have "no_file_attrs ?s0" by (simp add: no_file_attrs_def)
  with r have "no_file_attrs s1" using runWriter_no_file by blast
  with r show ?thesis by (simp add: close_def no_file_attrs_def)
qed

text \<open>
  C10. A logger constructed without an output directory has no log-file path, no session
  start time and no root directory, and no later call of a logging method or run of the
  writer creates them: \<open>close\<close>, \<open>logFilePath\<close> and \<open>getSessionStartTime\<close> raise
  \<open>AttributeError\<close>.
\<close>

theorem no_directory_no_file_attributes:
  assumes "arg_logDirPath a = None"
  shows "\<exists>self. init a startTime uuid w = Inr (self, w)
           \<and> (\<forall>s w'. later self s \<longrightarrow>
                 logFile s = None \<and> sessionStartTime s = None \<and> rootDir s = None
                 \<and> logFilePath s = Inl (Raised AttributeError)
                 \<and> getSessionStartTime s = Inl (Raised AttributeError)
                 \<and> close s w' = Inl (Raised AttributeError))"
proof -
  from init_without_directory[OF assms] obtain self
    where i: "init a startTime uuid w = Inr (self, w)" and n: "no_file_attrs self" by blast
  have "logFile s = None \<and> sessionStartTime s = None \<and> rootDir s = None
          \<and> logFilePath s = Inl (Raised AttributeError)
          \<and> getSessionStartTime s = Inl (Raised AttributeError)
          \<and> close s w' = Inl (Raised AttributeError)" if "later self s" for s w'
  proof -
    from that n have m: "no_file_attrs s" by (rule later_no_file)
    then show ?thesis using close_no_file[OF m]
      by (simp add: no_file_attrs_def logFilePath_def getSessionStartTime_def)
  qed
  with i show ?thesis by blast
qed

theorem no_directory_no_file_attributes_witness:
  "arg_logDirPath (default_args False False) = None
   \<and> (case init (default_args False False) example_start ''u1'' example_world of
         Inl e \<Rightarrow> False
       | Inr (self, w) \<Rightarrow>
           logFilePath self = Inl (Raised AttributeError)
           \<and> getSessionStartTime self = Inl (Raised AttributeError)
           \<and> close self example_world = Inl (Raised AttributeError))"
proof -
  have h: "arg_logDirPath (default_args False False) = None"
    by (simp add: default_args_def)
  from no_directory_no_file_attributes[OF h, of example_start "''u1''" example_world]
  obtain self where i: "init (default_args False False) example_start ''u1'' example_world = Inr (self, example_world)"
    and l: "\<And>s w'. later self s \<Longrightarrow>
                 logFilePath s = Inl (Raised AttributeError)
                 \<and> getSessionStartTime s = Inl (Raised AttributeError)
                 \<and> close s w' = Inl (Raised AttributeError)" by blast
  from l[OF later_now] h i show ?thesis by simp
qed

section \<open>Reading back what was written\<close>

lemma node_at_file_upd:
  assumes "node_at w q \<noteq> Some Dir"
  shows "node_at (w\<lparr>fs := (fs w)(q \<mapsto> File c)\<rparr>) x = Some Dir \<longleftrightarrow> node_at w x = Some Dir"
  using assms by (auto simp: node_at_def)

lemma walk_file_upd:
  assumes "node_at w q \<noteq> Some Dir"
  shows "walk (w\<lparr>fs := (fs w)(q \<mapsto> File c)\<rparr>) cur cs = walk w cur cs"
proof (induction cs arbitrary: cur)
  case Nil
  show ?case by simp
next
  case (Cons a cs)
  show ?case
    using Cons.IH node_at_file_upd[OF assms, of c cur]
    by (simp del: fun_upd_apply)
qed

lemma resolve_file_upd:
  assumes "node_at w q \<noteq> Some Dir"
  shows "resolve (w\<lparr>fs := (fs w)(q \<mapsto> File c)\<rparr>) p = resolve w p"
  using walk_file_upd[OF assms] by (simp add: resolve_def)

lemma write_file_Inr:
  assumes "write_file w p c = Inr w'"
  shows "\<exists>q. resolve w p = Some q \<and> node_at w q \<noteq> Some Dir
           \<and> w' = w\<lparr>fs := (fs w)(q \<mapsto> File c)\<rparr>"
  using assms by (auto simp: write_file_def split: option.splits if_splits)

lemma append_file_Inr:
  assumes "append_file w p d = Inr w'"
  shows "\<exists>q. resolve w p = Some q \<and> node_at w q \<noteq> Some Dir
           \<and> w' = w\<lparr>fs := (fs w)(q \<mapsto> File ((case node_at w q of Some (File old) \<Rightarrow> old | _ \<Rightarrow> []) @ d))\<rparr>"
  using assms by (auto simp: append_file_def split: option.splits if_splits node.splits)

lemma read_file_upd:
  assumes "resolve w p = Some q" and "node_at w q \<noteq> Some Dir"
  shows "read_file (w\<lparr>fs := (fs w)(q \<mapsto> File c)\<rparr>) p = Inr c"
proof -
  from assms(2) have "q \<noteq> []" by (auto simp: node_at_def)
  with assms resolve_file_upd[OF assms(2), of c p] show ?thesis
    by (simp add: read_file_def node_at_def)
qed

lemma read_after_write:
  assumes "write_file w p c = Inr w'"
  shows "read_file w' p = Inr c"
  using write_file_Inr[OF assms] read_file_upd by blast

lemma read_after_append:
  assumes "append_file w p d = Inr w'" and "read_file w p = Inr old"
  shows "read_file w' p = Inr (old @ d)"
proof -
  from append_file_Inr[OF assms(1)] obtain q where q: "resolve w p = Some q"
    and n: "node_at w q \<noteq> Some Dir"
    and w': "w' = w\<lparr>fs := (fs w)(q \<mapsto> File ((case node_at w q of Some (File old) \<Rightarrow> old | _ \<Rightarrow> []) @ d))\<rparr>"
    by blast
  from assms(2) q have "node_at w q = Some (File old)"
    by (auto simp: read_file_def split: option.splits node.splits)
  with w' read_file_upd[OF q n] show ?thesis by simp
qed

lemma getsize_read:
  assumes "read_file w p = Inr c"
  shows "getsize w p = Inr (utf8_len c)"
  using assms by (auto simp: read_file_def getsize_def split: option.splits node.splits)

section \<open>One pass of the writer loop\<close>

lemma map_sum_Some_Inr:
  "(map_sum id Some x = Inr (Some g)) = (x = Inr g)"
  by (cases x) auto

lemma logRotation_Inr:
  assumes "logRotation s w = Inr (s1, w1)" and "logFile s = Some f" and "read_file w f = Inr c"
  shows "if maxLogSize s \<le> of_nat (utf8_len c)
         then (\<exists>g. s1 = s\<lparr>logFile := Some g, sessions := sessions s + 1\<rparr>
                 \<and> write_file w g [] = Inr w1
                 \<and> (if logSaveFormat s = ''json'' then nextLogFile s ''.json'' = Inr g
                    else if logSaveFormat s = ''txt'' then nextLogFile s ''.txt'' = Inr g
                    else g = f))
         else s1 = s \<and> w1 = w"
proof (cases "maxLogSize s \<le> of_nat (utf8_len c)")
  case False
  with assms getsize_read[OF assms(3)] show ?thesis
    by (simp add: logRotation_def)
next
  case True
  from assms True getsize_read[OF assms(3)] show ?thesis
    by (auto simp: logRotation_def Let_def map_sum_Some_Inr
             split: sum.splits option.splits if_splits)
qed

lemma writeRecord_Inr:
  assumes "writeRecord s w r = Inr (s', w')"
  shows "\<exists>s1 w1. logRotation s w = Inr (s1, w1)
           \<and> (if formatJsonLogs s1 then appendSessionLog s1 r = Inr s' else s' = s1)
           \<and> persist s' w1 r = (None, w') \<and> \<not> flushInterval s' < 0"
proof -
  from assms obtain s1 w1 where l: "logRotation s w = Inr (s1, w1)"
    by (cases "logRotation s w") (auto simp: writeRecord_def)
  let ?a = "if formatJsonLogs s1 then appendSessionLog s1 r else Inr s1"
  from assms l obtain s2 where a: "?a = Inr s2"
    by (cases ?a) (auto simp: writeRecord_def)
  obtain e w2 where p: "persist s2 w1 r = (e, w2)" by (cases "persist s2 w1 r")
  from assms l a p have "e = None \<and> w2 = w' \<and> s2 = s' \<and> \<not> flushInterval s2 < 0"
    by (cases e) (auto simp: writeRecord_def split: if_splits)
  with l a p show ?thesis by (auto split: if_splits)
qed

lemma py_encode_keys:
  "py_encode_string ''Timestamp'' = quoted ''Timestamp''"
  "py_encode_string ''Level'' = quoted ''Level''"
  "py_encode_string ''Path'' = quoted ''Path''"
  "py_encode_string ''Module'' = quoted ''Module''"
  "py_encode_string ''Line'' = quoted ''Line''"
  "py_encode_string ''Message'' = quoted ''Message''"
  by code_simp+

lemma dumps_text_logrec:
  "dumps_text (json_of_logrec r) =
     json_line (Timestamp r) (Level r) (Path r) (Module r) (Line r)
       (dumps_text (msg_json (Message r)))"
  by (simp add: json_of_logrec_def json_line_def py_encode_keys)

lemma persist_json_line:
  assumes "persist s w r = (None, w')" and "logSaveFormat s = ''json''" and "\<not> formatJsonLogs s"
  shows "\<exists>f. logFile s = Some f \<and> serialisable (msg_json (Message r))
           \<and> append_file w f
                (json_line (Timestamp r) (Level r) (Path r) (Module r) (Line r)
                   (dumps_text (msg_json (Message r))) @ [CHR 0x0A]) = Inr w'"
proof -
  from assms obtain f where f: "logFile s = Some f"
    by (cases "logFile s") (auto simp: persist_def)
  from assms f obtain line where d: "dumps (json_of_logrec r) = Inr line"
    by (cases "dumps (json_of_logrec r)")
       (auto simp: persist_def split: sum.splits)
  then have line: "line = dumps_text (json_of_logrec r)" and ser: "serialisable (json_of_logrec r)"
    by (auto simp: dumps_def split: if_splits)
  from ser have "serialisable (msg_json (Message r))" by (simp add: json_of_logrec_def)
  moreover from assms f d have "append_file w f (line @ [CHR 0x0A]) = Inr w'"
    by (auto simp: persist_def split: sum.splits)
  ultimately show ?thesis using f line dumps_text_logrec by auto
qed

lemma writeRecord_json_line:
  assumes "writeRecord s w r = Inr (s', w')"
    and "logSaveFormat s = ''json''" and "\<not> formatJsonLogs s"
    and "logFile s = Some f" and "read_file w f = Inr c"
  shows "\<exists>g. logFile s' = Some g \<and> serialisable (msg_json (Message r))
           \<and> read_file w' g =
               Inr ((if maxLogSize s \<le> of_nat (utf8_len c) then [] else c)
                    @ json_line (Timestamp r) (Level r) (Path r) (Module r) (Line r)
                        (dumps_text (msg_json (Message r))) @ [CHR 0x0A])"
proof -
  let ?line = "json_line (Timestamp r) (Level r) (Path r) (Module r) (Line r)
                        (dumps_text (msg_json (Message r))) @ [CHR 0x0A]"
  from writeRecord_Inr[OF assms(1)] obtain s1 w1
    where l: "logRotation s w = Inr (s1, w1)"
      and a: "if formatJsonLogs s1 then appendSessionLog s1 r = Inr s' else s' = s1"
      and p: "persist s' w1 r = (None, w')" by blast
  note rot = logRotation_Inr[OF l assms(4,5)]
  show ?thesis
  proof (cases "maxLogSize s \<le> of_nat (utf8_len c)")
    case False
    with rot have "s1 = s" and "w1 = w" by simp_all
    with a assms(3) have s': "s' = s" by simp
    from persist_json_line[OF p] s' assms(2,3,4) \<open>w1 = w\<close>
    have ser: "serialisable (msg_json (Message r))" and ap: "append_file w f ?line = Inr w'"
      by auto
    from read_after_append[OF ap assms(5)] ser s' assms(4) False show ?thesis by simp
  next
    case True
    with rot obtain g where s1: "s1 = s\<lparr>logFile := Some g, sessions := sessions s + 1\<rparr>"
      and wf: "write_file w g [] = Inr w1" by auto
    with a assms(3) have s': "s' = s1" by simp
    from persist_json_line[OF p] s' s1 assms(2,3)
    have ser: "serialisable (msg_json (Message r))" and ap: "append_file w1 g ?line = Inr w'"
      by auto
    from read_after_append[OF ap read_after_write[OF wf]] ser s' s1 True show ?thesis by simp
  qed
qed

section \<open>The fields of a queued record\<close>

text \<open>
  C9, as amended. A call of \<open>__log\<close> that returns was made with one of the five
  canonical level names. Without an output directory it leaves the queue as it is; with
  one it appends exactly one record, which carries the message, whose level is that name
  padded with spaces to width 8 and whose line is the decimal text of the caller's line
  number padded to width 5, both strings. Whenever the writer persists this record in
  the format of one JSON object per line, the active file (the new one after a rotation)
  gains exactly one line: the compact JSON object with the keys \<open>Timestamp\<close>, \<open>Level\<close>,
  \<open>Path\<close>, \<open>Module\<close>, \<open>Line\<close>, \<open>Message\<close> in this order, holding the padded level and
  the padded line as JSON strings and the message as its JSON text.
\<close>

theorem queued_record_fields:
  assumes "log' self logType message showTimeArg echo information now = Inr (out, self')"
  shows "logType \<in> set LOGGINGLEVELS
         \<and> (if logDir self = None then queue self' = queue self
            else (\<exists>r. queue self' = queue self @ [Some r]
                   \<and> Level r = ljust 8 logType
                   \<and> Line r = ljust 5 (str_nat (fi_lineno information))
                   \<and> Message r = message
                   \<and> (\<forall>s w s' w' f c.
                         writeRecord s w r = Inr (s', w') \<and> logSaveFormat s = ''json''
                         \<and> \<not> formatJsonLogs s \<and> logFile s = Some f \<and> read_file w f = Inr c
                         \<longrightarrow> (\<exists>g. logFile s' = Some g
                                \<and> read_file w' g =
                                    Inr ((if maxLogSize s \<le> of_nat (utf8_len c) then [] else c)
                                         @ json_line (Timestamp r) (ljust 8 logType) (Path r)
                                             (Module r)
                                             (ljust 5 (str_nat (fi_lineno information)))
                                             (dumps_text (msg_json message))
                                         @ [CHR 0x0A])))))"
proof (cases "logDir self")
  case None
  with log'_Inr(1,2)[OF assms] show ?thesis by simp
next
  case (Some d)
  then have d: "logDir self \<noteq> None" by simp
  let ?r = "currentLogOf (currentTimeOf self showTimeArg now) logType information message"
  have f: "Level ?r = ljust 8 logType" "Line ?r = ljust 5 (str_nat (fi_lineno information))"
    "Message ?r = message"
    by (simp_all add: currentLogOf_def)
  have "\<exists>g. logFile s' = Some g
           \<and> read_file w' g =
               Inr ((if maxLogSize s \<le> of_nat (utf8_len c) then [] else c)
                    @ json_line (Timestamp ?r) (ljust 8 logType) (Path ?r) (Module ?r)
                        (ljust 5 (str_nat (fi_lineno information)))
                        (dumps_text (msg_json message))
                    @ [CHR 0x0A])"
    if "writeRecord s w ?r = Inr (s', w') \<and> logSaveFormat s = ''json''
          \<and> \<not> formatJsonLogs s \<and> logFile s = Some f \<and> read_file w f = Inr c"
    for s w s' w' f c
  proof -
    from that have a: "writeRecord s w ?r = Inr (s', w')" and b: "logSaveFormat s = ''json''"
      and c: "\<not> formatJsonLogs s" and e: "logFile s = Some f" and g: "read_file w f = Inr c"
      by simp_all
    from writeRecord_json_line[OF a b c e g] f show ?thesis by auto
  qed
  then have w: "\<forall>s w s' w' f c.
                 writeRecord s w ?r = Inr (s', w') \<and> logSaveFormat s = ''json''
                 \<and> \<not> formatJsonLogs s \<and> logFile s = Some f \<and> read_file w f = Inr c
                 \<longrightarrow> (\<exists>g. logFile s' = Some g
                        \<and> read_file w' g =
                            Inr ((if maxLogSize s \<le> of_nat (utf8_len c) then [] else c)
                                 @ json_line (Timestamp ?r) (ljust 8 logType) (Path ?r)
                                     (Module ?r)
                                     (ljust 5 (str_nat (fi_lineno information)))
                                     (dumps_text (msg_json message))
                                 @ [CHR 0x0A]))"
    by blast
  have "\<exists>r. queue self' = queue self @ [Some r]
          \<and> Level r = ljust 8 logType
          \<and> Line r = ljust 5 (str_nat (fi_lineno information))
          \<and> Message r = message
          \<and> (\<forall>s w s' w' f c.
                writeRecord s w r = Inr (s', w') \<and> logSaveFormat s = ''json''
                \<and> \<not> formatJsonLogs s \<and> logFile s = Some f \<and> read_file w f = Inr c
                \<longrightarrow> (\<exists>g. logFile s' = Some g
                       \<and> read_file w' g =
                           Inr ((if maxLogSize s \<le> of_nat (utf8_len c) then [] else c)
                                @ json_line (Timestamp r) (ljust 8 logType) (Path r)
                                    (Module r)
                                    (ljust 5 (str_nat (fi_lineno information)))
                                    (dumps_text (msg_json message))
                                @ [CHR 0x0A])))"
    using log'_queue[OF assms d] f w by (intro exI[of _ ?r] conjI)
  with log'_Inr(1)[OF assms] Some show ?thesis by simp
qed

theorem queued_record_fields_witness:
  "(case init ((default_args False False)\<lparr>arg_logDirPath := Some ''/var/log''\<rparr>)
           example_start ''u1'' example_world of
      Inl e \<Rightarrow> False
    | Inr (self, w) \<Rightarrow>
       (case log' self ''INFO'' (of_str ''x'') None None example_frame example_now of
          Inl e \<Rightarrow> False
        | Inr (out, self1) \<Rightarrow>
           ''INFO'' \<in> set LOGGINGLEVELS \<and> logDir self \<noteq> None
           \<and> (\<exists>r. queue self1 = queue self @ [Some r]
                  \<and> Level r = ljust 8 ''INFO''
                  \<and> Line r = ljust 5 (str_nat (fi_lineno example_frame))
                  \<and> Message r = of_str ''x''
                  \<and> (case writeRecord self1 w r of
                        Inl x \<Rightarrow> False
                      | Inr (s', w') \<Rightarrow>
                          logSaveFormat self1 = ''json'' \<and> \<not> formatJsonLogs self1
                          \<and> logFile self1 \<noteq> None
                          \<and> (\<exists>g. logFile s' = Some g
                                 \<and> read_file w' g =
                                     Inr (json_line (Timestamp r) (ljust 8 ''INFO'') (Path r)
                                            (Module r)
                                            (ljust 5 (str_nat (fi_lineno example_frame)))
                                            (dumps_text (msg_json (of_str ''x'')))
                                          @ [CHR 0x0A]))))))"
proof -
  let ?i = "init ((default_args False False)\<lparr>arg_logDirPath := Some ''/var/log''\<rparr>)
           example_start ''u1'' example_world"
  let ?F = "''/var/log/myLog/myLog_2024-01-01_10-00-00(1).json''"
  have ev: "case ?i of
          Inl e \<Rightarrow> False
        | Inr (self, w) \<Rightarrow>
            logDir self \<noteq> None \<and> queue self = []
            \<and> (case log' self ''INFO'' (of_str ''x'') None None example_frame example_now of
                  Inl e \<Rightarrow> False
                | Inr (out, self1) \<Rightarrow>
                    logSaveFormat self1 = ''json'' \<and> \<not> formatJsonLogs self1
                    \<and> logFile self1 = Some ?F \<and> read_file w ?F = Inr []
                    \<and> \<not> maxLogSize self1 \<le> 0
                    \<and> (case queue self1 of
                          [Some r] \<Rightarrow> \<not> isl (writeRecord self1 w r)
                        | _ \<Rightarrow> False))"
    by code_simp
  then obtain self w where i: "?i = Inr (self, w)" by (cases ?i) auto
  let ?l = "log' self ''INFO'' (of_str ''x'') None None example_frame example_now"
  from ev i have d: "logDir self \<noteq> None" and q: "queue self = []" by simp_all
  from ev i obtain out self1 where l: "?l = Inr (out, self1)" by (cases ?l) auto
  from ev i l have j: "logSaveFormat self1 = ''json''" and nf: "\<not> formatJsonLogs self1"
    and lf: "logFile self1 = Some ?F" and rd: "read_file w ?F = Inr []"
    and mx: "\<not> maxLogSize self1 \<le> 0"
    and wq: "case queue self1 of [Some r] \<Rightarrow> \<not> isl (writeRecord self1 w r) | _ \<Rightarrow> False"
    by simp_all
  from queued_record_fields[OF l] d obtain r
    where r: "queue self1 = queue self @ [Some r]"
      and lv: "Level r = ljust 8 ''INFO''"
      and ln: "Line r = ljust 5 (str_nat (fi_lineno example_frame))"
      and ms: "Message r = of_str ''x''"
      and wr: "\<And>s w s' w' f c.
                 writeRecord s w r = Inr (s', w') \<and> logSaveFormat s = ''json''
                 \<and> \<not> formatJsonLogs s \<and> logFile s = Some f \<and> read_file w f = Inr c
                 \<Longrightarrow> (\<exists>g. logFile s' = Some g
                        \<and> read_file w' g =
                            Inr ((if maxLogSize s \<le> of_nat (utf8_len c) then [] else c)
                                 @ json_line (Timestamp r) (ljust 8 ''INFO'') (Path r)
                                     (Module r)
                                     (ljust 5 (str_nat (fi_lineno example_frame)))
                                     (dumps_text (msg_json (of_str ''x'')))
                                 @ [CHR 0x0A]))"
      and lvl: "''INFO'' \<in> set LOGGINGLEVELS"
    by auto
  from r q wq have "\<not> isl (writeRecord self1 w r)" by simp
  then obtain s' w' where w: "writeRecord self1 w r = Inr (s', w')"
    by (cases "writeRecord self1 w r") auto
  from wr[of self1 w s' w' ?F "[]"] w j nf lf rd mx
  have "\<exists>g. logFile s' = Some g
          \<and> read_file w' g =
              Inr (json_line (Timestamp r) (ljust 8 ''INFO'') (Path r) (Module r)
                     (ljust 5 (str_nat (fi_lineno example_frame)))
                     (dumps_text (msg_json (of_str ''x'')))
                   @ [CHR 0x0A])"
    by (simp add: utf8_len_def)
  with i l d lvl r lv ln ms w j nf lf show ?thesis by auto
qed

text \<open>
  C9, as stated, fails: the record queued by \<open>INFO\<close> called from line 42 has the level
  \<open>INFO\<close> followed by four spaces, which is none of the five names, and the line is the
  string \<open>42\<close> followed by three spaces, not a number; the writer persists them as the
  JSON strings \<open>"INFO    "\<close> and \<open>"42   "\<close>.
\<close>

theorem padded_level_and_line_counterexample:
  "(case init ((default_args False False)\<lparr>arg_logDirPath := Some ''/var/log''\<rparr>)
           example_start ''u1'' example_world of
      Inl e \<Rightarrow> False
    | Inr (self, w) \<Rightarrow>
       (case INFO self (of_str ''x'') None None example_frame example_now of
          Inl e \<Rightarrow> False
        | Inr (out, self1) \<Rightarrow>
           (case queue self1 of
              [Some r] \<Rightarrow>
                Level r = ''INFO    '' \<and> Level r \<notin> set LOGGINGLEVELS
                \<and> Line r = ''42   '' \<and> Line r \<noteq> str_nat 42
                \<and> (case runWriter self1 w of
                      (e, self2, w2) \<Rightarrow>
                        e = None
                        \<and> read_file w2 ''/var/log/myLog/myLog_2024-01-01_10-00-00(1).json'' =
                            Inr (json_line [] ''INFO    '' (ljust 65 ''/app/main.py'')
                                   ''main      '' ''42   '' (quoted ''x'') @ [CHR 0x0A]))
            | _ \<Rightarrow> False)))"
  by code_simp

section \<open>The save format\<close>

text \<open>
  C3, as stated, fails: without an output directory the format \<open>xml\<close> is accepted, and
  with one the format \<open>json\<close> written between spaces is accepted, although the lower-case
  form of neither is \<open>json\<close> or \<open>txt\<close>.
\<close>

theorem format_not_always_rejected_counterexample:
  "lower ''xml'' \<noteq> ''json'' \<and> lower ''xml'' \<noteq> ''txt''
   \<and> \<not> isl (init ((default_args False False)\<lparr>arg_logSaveFormat := ''xml''\<rparr>)
              example_start ''u1'' example_world)
   \<and> lower '' json '' \<noteq> ''json'' \<and> lower '' json '' \<noteq> ''txt''
   \<and> \<not> isl (init ((default_args False False)
                      \<lparr>arg_logSaveFormat := '' json '', arg_logDirPath := Some ''/var/log''\<rparr>)
              example_start ''u1'' example_world)"
  by code_simp

text \<open>
  C3, as amended. When an output directory is given, every save format whose lower-case
  form with surrounding white space removed is neither \<open>json\<close> nor \<open>txt\<close> makes the
  construction fail, whatever the other options are: with \<open>InvalidFormat\<close> when the
  directory exists or can be created, and with the error of the path checks, which come
  first, otherwise.
\<close>

theorem invalid_format_with_directory:
  assumes "arg_logDirPath a = Some p"
    and "strip (lower (arg_logSaveFormat a)) \<noteq> ''json''"
    and "strip (lower (arg_logSaveFormat a)) \<noteq> ''txt''"
  shows "init a startTime uuid w =
           Inl (Exited
             (if path_exists w (abspath w p)
              then (if path_isdir w (abspath w p) then InvalidFormat else NotADirectory)
              else (case makedirs w (abspath w p) False of
                      (Some e, w1) \<Rightarrow> InvalidPath
                    | (None, w1) \<Rightarrow>
                        (if path_isdir w1 (abspath w p) then InvalidFormat
                         else NotADirectory))))"
proof (cases "path_exists w (abspath w p)")
  case True
  with assms show ?thesis
    by (simp add: init_def Let_def)
next
  case False
  obtain eo w1 where m: "makedirs w (abspath w p) False = (eo, w1)"
    by (cases "makedirs w (abspath w p) False")
  show ?thesis
  proof (cases eo)
    case None
    with False m assms show ?thesis by (simp add: init_def Let_def)
  next
    case (Some e)
    with False m assms show ?thesis by (simp add: init_def Let_def)
  qed
qed

theorem invalid_format_with_directory_witness:
  "arg_logDirPath ((default_args False False)
      \<lparr>arg_logSaveFormat := ''xml'', arg_logDirPath := Some ''/var/log''\<rparr>) = Some ''/var/log''
   \<and> strip (lower (arg_logSaveFormat ((default_args False False)
      \<lparr>arg_logSaveFormat := ''xml'', arg_logDirPath := Some ''/var/log''\<rparr>))) \<noteq> ''json''
   \<and> strip (lower (arg_logSaveFormat ((default_args False False)
      \<lparr>arg_logSaveFormat := ''xml'', arg_logDirPath := Some ''/var/log''\<rparr>))) \<noteq> ''txt''
   \<and> init ((default_args False False)
      \<lparr>arg_logSaveFormat := ''xml'', arg_logDirPath := Some ''/var/log''\<rparr>)
        example_start ''u1'' example_world = Inl (Exited InvalidFormat)"
proof -
  let ?a = "(default_args False False)
      \<lparr>arg_logSaveFormat := ''xml'', arg_logDirPath := Some ''/var/log''\<rparr>"
  have h1: "arg_logDirPath ?a = Some ''/var/log''" by simp
  have h2: "strip (lower (arg_logSaveFormat ?a)) \<noteq> ''json''" by code_simp
  have h3: "strip (lower (arg_logSaveFormat ?a)) \<noteq> ''txt''" by code_simp
  have d: "path_exists example_world (abspath example_world ''/var/log'')"
    "path_isdir example_world (abspath example_world ''/var/log'')"
    by code_simp+
  from invalid_format_with_directory[OF h1 h2 h3, of example_start "''u1''" example_world] d
  have "init ?a example_start ''u1'' example_world = Inl (Exited InvalidFormat)" by simp
  with h1 h2 h3 show ?thesis by blast
qed

section \<open>The text format\<close>

lemma ljust_ljust: "ljust n (ljust n s) = ljust n s"
  by (simp add: ljust_def)

lemma appendSessionLog_Inr:
  assumes "appendSessionLog s r = Inr s'"
  shows "\<exists>l. s' = s\<lparr>sessionLogs := l\<rparr>"
  using assms by (auto simp: appendSessionLog_def split: option.splits if_splits)

lemma persist_txt_line:
  assumes "persist s w r = (None, w')" and "logSaveFormat s = ''txt''"
  shows "\<exists>f. logFile s = Some f \<and> append_file w f (txtLine r) = Inr w'"
proof -
  from assms obtain f where f: "logFile s = Some f"
    by (cases "logFile s") (auto simp: persist_def)
  with assms show ?thesis
    by (cases "append_file w f (txtLine r)") (auto simp: persist_def)
qed

lemma writeRecord_txt_line:
  assumes "writeRecord s w r = Inr (s', w')" and "logSaveFormat s = ''txt''"
    and "logFile s = Some f" and "read_file w f = Inr c"
  shows "\<exists>g. logFile s' = Some g
           \<and> read_file w' g =
               Inr ((if maxLogSize s \<le> of_nat (utf8_len c) then [] else c) @ txtLine r)"
proof -
  from writeRecord_Inr[OF assms(1)] obtain s1 w1
    where l: "logRotation s w = Inr (s1, w1)"
      and a: "if formatJsonLogs s1 then appendSessionLog s1 r = Inr s' else s' = s1"
      and p: "persist s' w1 r = (None, w')" by blast
  from a have s': "\<exists>l. s' = s1\<lparr>sessionLogs := l\<rparr> \<or> s' = s1"
    using appendSessionLog_Inr by (cases "formatJsonLogs s1") auto
  note rot = logRotation_Inr[OF l assms(3,4)]
  show ?thesis
  proof (cases "maxLogSize s \<le> of_nat (utf8_len c)")
    case False
    with rot have e: "s1 = s" "w1 = w" by simp_all
    with s' assms(2,3) have t: "logSaveFormat s' = ''txt''" and lf: "logFile s' = Some f" by auto
    from persist_txt_line[OF p t] lf e have ap: "append_file w f (txtLine r) = Inr w'" by simp
    from read_after_append[OF ap assms(4)] lf False show ?thesis by simp
  next
    case True
    with rot obtain g where s1: "s1 = s\<lparr>logFile := Some g, sessions := sessions s + 1\<rparr>"
      and wf: "write_file w g [] = Inr w1" by auto
    with s' assms(2) have t: "logSaveFormat s' = ''txt''" and lf: "logFile s' = Some g" by auto
    from persist_txt_line[OF p t] lf have ap: "append_file w1 g (txtLine r) = Inr w'" by simp
    from read_after_append[OF ap read_after_write[OF wf]] lf True show ?thesis by simp
  qed
qed

text \<open>
  C7. With an output directory, a call of \<open>__log\<close> that returns queues one record whose
  timestamp field is empty when the effective show-timestamp flag (the argument if given,
  else the attribute) is false, and the clock reading followed by a space when it is
  true. Whenever the writer persists this record in the \<open>txt\<close> format, the active file
  (the new one after a rotation) gains exactly the line
  \<open>[{timestamp}] -> [{level padded to 8}] - {message}\<close> and a line feed, where the
  timestamp is that field, the level is the level name of the call and the message is
  the text of the message.
\<close>

theorem txt_line_format:
  assumes "log' self logType message showTimeArg echo information now = Inr (out, self')"
    and "logDir self \<noteq> None"
  shows "\<exists>r. queue self' = queue self @ [Some r]
           \<and> logType \<in> set LOGGINGLEVELS
           \<and> Timestamp r =
               (if (case showTimeArg of Some b \<Rightarrow> b | None \<Rightarrow> showTime self) then now @ '' ''
                else [])
           \<and> (\<forall>s w s' w' f c.
                 writeRecord s w r = Inr (s', w') \<and> logSaveFormat s = ''txt''
                 \<and> logFile s = Some f \<and> read_file w f = Inr c
                 \<longrightarrow> (\<exists>g. logFile s' = Some g
                        \<and> read_file w' g =
                            Inr ((if maxLogSize s \<le> of_nat (utf8_len c) then [] else c)
                                 @ txt_line (Timestamp r) logType (msg_text message)
                                 @ [CHR 0x0A])))"
proof -
  let ?r = "currentLogOf (currentTimeOf self showTimeArg now) logType information message"
  have t: "Timestamp ?r =
             (if (case showTimeArg of Some b \<Rightarrow> b | None \<Rightarrow> showTime self) then now @ '' ''
              else [])"
    by (simp add: currentLogOf_def currentTimeOf_def split: option.splits)
  have line: "txtLine ?r = txt_line (Timestamp ?r) logType (msg_text message) @ [CHR 0x0A]"
    by (simp add: txtLine_def txt_line_def currentLogOf_def ljust_ljust)
  have "\<exists>g. logFile s' = Some g
           \<and> read_file w' g =
               Inr ((if maxLogSize s \<le> of_nat (utf8_len c) then [] else c)
                    @ txt_line (Timestamp ?r) logType (msg_text message) @ [CHR 0x0A])"
    if "writeRecord s w ?r = Inr (s', w') \<and> logSaveFormat s = ''txt''
          \<and> logFile s = Some f \<and> read_file w f = Inr c"
    for s w s' w' f c
  proof -
    from that have a: "writeRecord s w ?r = Inr (s', w')" and b: "logSaveFormat s = ''txt''"
      and e: "logFile s = Some f" and g: "read_file w f = Inr c"
      by simp_all
    from writeRecord_txt_line[OF a b e g] line show ?thesis by simp
  qed
  then have w: "\<forall>s w s' w' f c.
                 writeRecord s w ?r = Inr (s', w') \<and> logSaveFormat s = ''txt''
                 \<and> logFile s = Some f \<and> read_file w f = Inr c
                 \<longrightarrow> (\<exists>g. logFile s' = Some g
                        \<and> read_file w' g =
                            Inr ((if maxLogSize s \<le> of_nat (utf8_len c) then [] else c)
                                 @ txt_line (Timestamp ?r) logType (msg_text message)
                                 @ [CHR 0x0A]))"
    by blast
  show ?thesis
    using log'_queue[OF assms] log'_Inr(1)[OF assms(1)] t w
    by (intro exI[of _ ?r] conjI)
qed

theorem txt_line_format_witness:
  "(case init ((default_args False True)
                 \<lparr>arg_logDirPath := Some ''/var/log'', arg_logSaveFormat := ''txt''\<rparr>)
           example_start ''u1'' example_world of
      Inl e \<Rightarrow> False
    | Inr (self, w) \<Rightarrow>
       (case log' self ''INFO'' (of_str ''boot'') (Some False) None example_frame example_now of
          Inl e \<Rightarrow> False
        | Inr (out, self1) \<Rightarrow>
           logDir self \<noteq> None
           \<and> (\<exists>r. queue self1 = queue self @ [Some r]
                  \<and> Timestamp r = []
                  \<and> (case writeRecord self1 w r of
                        Inl x \<Rightarrow> False
                      | Inr (s', w') \<Rightarrow>
                          logSaveFormat self1 = ''txt'' \<and> logFile self1 \<noteq> None
                          \<and> (\<exists>g. logFile s' = Some g
                                 \<and> read_file w' g =
                                     Inr (''[] -> [INFO    ] - boot'' @ [CHR 0x0A]))))))"
proof -
  let ?i = "init ((default_args False True)
                 \<lparr>arg_logDirPath := Some ''/var/log'', arg_logSaveFormat := ''txt''\<rparr>)
           example_start ''u1'' example_world"
  let ?F = "''/var/log/myLog/myLog_2024-01-01_10-00-00(1).txt''"
  have ev: "case ?i of
          Inl e \<Rightarrow> False
        | Inr (self, w) \<Rightarrow>
            logDir self \<noteq> None \<and> queue self = []
            \<and> (case log' self ''INFO'' (of_str ''boot'') (Some False) None example_frame
                       example_now of
                  Inl e \<Rightarrow> False
                | Inr (out, self1) \<Rightarrow>
                    logSaveFormat self1 = ''txt''
                    \<and> logFile self1 = Some ?F \<and> read_file w ?F = Inr []
                    \<and> \<not> maxLogSize self1 \<le> 0
                    \<and> (case queue self1 of
                          [Some r] \<Rightarrow> \<not> isl (writeRecord self1 w r)
                        | _ \<Rightarrow> False))"
    by code_simp
  then obtain self w where i: "?i = Inr (self, w)" by (cases ?i) auto
  let ?l = "log' self ''INFO'' (of_str ''boot'') (Some False) None example_frame example_now"
  from ev i have d: "logDir self \<noteq> None" and q: "queue self = []" by simp_all
  from ev i obtain out self1 where l: "?l = Inr (out, self1)" by (cases ?l) auto
  from ev i l have j: "logSaveFormat self1 = ''txt''"
    and lf: "logFile self1 = Some ?F" and rd: "read_file w ?F = Inr []"
    and mx: "\<not> maxLogSize self1 \<le> 0"
    and wq: "case queue self1 of [Some r] \<Rightarrow> \<not> isl (writeRecord self1 w r) | _ \<Rightarrow> False"
    by simp_all
  from txt_line_format[OF l d] obtain r
    where r: "queue self1 = queue self @ [Some r]"
      and ts0: "Timestamp r =
               (if (case Some False of Some b \<Rightarrow> b | None \<Rightarrow> showTime self)
                then example_now @ '' '' else [])"
      and wr: "\<And>s w s' w' f c.
                 writeRecord s w r = Inr (s', w') \<and> logSaveFormat s = ''txt''
                 \<and> logFile s = Some f \<and> read_file w f = Inr c
                 \<Longrightarrow> (\<exists>g. logFile s' = Some g
                        \<and> read_file w' g =
                            Inr ((if maxLogSize s \<le> of_nat (utf8_len c) then [] else c)
                                 @ txt_line (Timestamp r) ''INFO'' (msg_text (of_str ''boot''))
                                 @ [CHR 0x0A]))"
    by blast
  from ts0 have ts: "Timestamp r = []" by simp
  from r q wq have "\<not> isl (writeRecord self1 w r)" by simp
  then obtain s' w' where w: "writeRecord self1 w r = Inr (s', w')"
    by (cases "writeRecord self1 w r") auto
  have tl: "txt_line [] ''INFO'' (msg_text (of_str ''boot'')) = ''[] -> [INFO    ] - boot''"
    by code_simp
  from wr[of self1 w s' w' ?F "[]"] w j lf rd mx ts tl
  have "\<exists>g. logFile s' = Some g
          \<and> read_file w' g = Inr (''[] -> [INFO    ] - boot'' @ [CHR 0x0A])"
    by (simp add: utf8_len_def)
  with i l d r ts w j lf show ?thesis by auto
qed

end
